theory Spec2Isabelle
  imports Main
begin

section \<open>Seat reservation and booking confirmation of the ticketing storefront\<close>

text \<open>
  The two request handlers that form the reservation protocol are embedded here:
  \<^item> \<open>POST\<close> of \<open>src/app/api/seats/reserve/route.ts\<close> (the Reservation Manager), as
    \<open>POST_reserve\<close>;
  \<^item> \<open>POST\<close> of the booking route in \<open>src/unnamed/part_002\<close> (the Booking
    Finalizer), as \<open>POST_bookings\<close>.

  Both handlers are stateless; all durable state lives in the store. The store is a record
  of tables, each table a list of rows, and a handler is a function from the environment
  of one request, the request body and the store to a response and the store afterwards.

  Conventions of the embedding:
  \<^item> a nullable column or an optional body field is an \<open>option\<close>; JavaScript's
    truthiness of a string (\<open>!x\<close>, \<open>x || d\<close>) is \<open>truthy\<close>: absent and empty are falsy;
  \<^item> a timestamp is the number of milliseconds since the epoch (what
    \<open>new Date(s).getTime()\<close> reads from a stored timestamp), a natural number;
  \<^item> amounts and counters are integers;
  \<^item> a store call resolves to data, resolves to an error value that the handler may
    inspect (\<open>checkError\<close>, \<open>updateError\<close>, \<open>bookingError\<close>), or throws; a throw outside
    a \<open>try\<close> of its own reaches the outer \<open>catch\<close> of the handler, which answers 500.
    Which calls fail, what the clock reads and what other requests write between two
    calls of a reserve request belong to the environment of the request;
  \<^item> a handler starts from the parsed body; the booking handler is embedded for a
    request that no other request interleaves with;
  \<^item> a message built from a template literal is a constructor carrying the interpolated
    values.
\<close>

subsection \<open>Rows of the store\<close>

record seat =
  seat_id :: string
  seat_show_id :: string
  seat_section :: string
  seat_row :: string
  seat_number :: int
  seat_price_nok :: int
  seat_status :: "string option"
  seat_reserved_until :: "nat option"

record show_row =
  show_id :: string
  show_title :: "string option"
  show_ensemble_title :: "string option"
  show_datetime :: string
  show_available_seats :: int

record discount_code =
  dc_id :: string
  dc_code :: string
  dc_current_uses :: "int option"

text \<open>
  The ticket payload that \<open>createQRCodeData\<close> builds and \<open>JSON.stringify\<close> serialises. The
  stored string is kept as the record it serialises.
\<close>

record ticket_payload =
  tp_booking_id :: string
  tp_booking_reference :: string
  tp_show_id :: string
  tp_show_title :: string
  tp_show_datetime :: string
  tp_customer_name :: string
  tp_seats :: "(string \<times> string \<times> int) list"

record booking =
  booking_id :: string
  booking_user_id :: string
  booking_show_id :: string
  booking_seat_ids :: "string list"
  booking_total_amount_nok :: int
  booking_reference :: string
  booking_qr_code_data :: ticket_payload
  booking_customer_name :: string
  booking_customer_email :: string
  booking_customer_phone :: "string option"
  booking_special_requests :: "string option"
  booking_status :: string
  booking_confirmed_at :: nat
  booking_ticket_sent :: bool
  booking_discount_code_used :: "string option"

record db =
  tbl_seats :: "seat list"
  tbl_bookings :: "booking list"
  tbl_shows :: "show_row list"
  tbl_discount_codes :: "discount_code list"

subsection \<open>Request bodies\<close>

text \<open>
  The JSON body. The reserve handler destructures \<open>seatIds\<close> and \<open>showId\<close> only. A field that
  is missing, or that has another type than the handler asks for (\<open>Array.isArray\<close>,
  \<open>typeof totalAmount !== "number"\<close>), is \<open>None\<close>.
\<close>

record body =
  showId :: "string option"
  seatIds :: "string list option"
  customerName :: "string option"
  customerEmail :: "string option"
  customerPhone :: "string option"
  specialRequests :: "string option"
  totalAmount :: "int option"
  discountCode :: "string option"

definition truthy :: "string option \<Rightarrow> bool" where
  "truthy x = (case x of None \<Rightarrow> False | Some s \<Rightarrow> s \<noteq> [])"

definition or_null :: "string option \<Rightarrow> string option" where
  \<comment> \<open>\<open>x || null\<close>\<close>
  "or_null x = (if truthy x then x else None)"

definition lower_char :: "char \<Rightarrow> char" where
  \<comment> \<open>an ASCII capital (codes 65 to 90) gets bit 5 set; any other character stays\<close>
  "lower_char c =
     (if (65::nat) \<le> of_char c \<and> of_char c \<le> (90::nat)
      then (case c of Char b0 b1 b2 b3 b4 b5 b6 b7 \<Rightarrow> Char b0 b1 b2 b3 b4 True b6 b7)
      else c)"

definition toLowerCase :: "string \<Rightarrow> string" where
  \<comment> \<open>on the ASCII letters, which is all a status value holds\<close>
  "toLowerCase = map lower_char"

subsection \<open>Store operations on the seats table\<close>

definition select_seats_of_show :: "string list \<Rightarrow> string \<Rightarrow> seat list \<Rightarrow> seat list" where
  \<comment> \<open>\<open>.in("id", seatIds).eq("show_id", showId)\<close>\<close>
  "select_seats_of_show ids sid tbl =
     filter (\<lambda>s. seat_id s \<in> set ids \<and> seat_show_id s = sid) tbl"

definition select_seats :: "string list \<Rightarrow> seat list \<Rightarrow> seat list" where
  \<comment> \<open>\<open>.in("id", seatIds)\<close>\<close>
  "select_seats ids tbl = filter (\<lambda>s. seat_id s \<in> set ids) tbl"

definition release_seats :: "string list \<Rightarrow> seat list \<Rightarrow> seat list" where
  \<comment> \<open>\<open>.update({ status: "available", reserved_until: null }).in("id", ids)\<close>\<close>
  "release_seats ids tbl =
     map (\<lambda>s. if seat_id s \<in> set ids
              then s\<lparr>seat_status := Some ''available'', seat_reserved_until := None\<rparr>
              else s) tbl"

definition reservable :: "string list \<Rightarrow> string \<Rightarrow> seat \<Rightarrow> bool" where
  \<comment> \<open>the row filter of the reserving update:
      \<open>.in("id", seatIds).eq("show_id", showId).eq("status", "available")\<close>\<close>
  "reservable ids sid s =
     (seat_id s \<in> set ids \<and> seat_show_id s = sid \<and> seat_status s = Some ''available'')"

definition reserve_update :: "string list \<Rightarrow> string \<Rightarrow> nat \<Rightarrow> seat list \<Rightarrow> seat list" where
  \<comment> \<open>\<open>.update({ status: "reserved", reserved_until: reservedUntil })\<close> on the rows of
      \<open>reservable\<close>\<close>
  "reserve_update ids sid until tbl =
     map (\<lambda>s. if reservable ids sid s
              then s\<lparr>seat_status := Some ''reserved'', seat_reserved_until := Some until\<rparr>
              else s) tbl"

definition sell_seats :: "string list \<Rightarrow> seat list \<Rightarrow> seat list" where
  \<comment> \<open>\<open>.update({ status: "sold", reserved_until: null }).in("id", seatIds)\<close>\<close>
  "sell_seats ids tbl =
     map (\<lambda>s. if seat_id s \<in> set ids
              then s\<lparr>seat_status := Some ''sold'', seat_reserved_until := None\<rparr>
              else s) tbl"

subsection \<open>The reserve handler\<close>

datatype call_result = Resolved | ReturnedError string | Threw

datatype reserve_site = CheckSeats | Cleanup | ReserveUpdate | Rollback

text \<open>
  The environment of one reserve request. \<open>clock_start\<close> is the \<open>Date.now()\<close> that
  \<open>reservedUntil\<close> is computed from, \<open>clock_check\<close> the later one that holds are compared
  with. \<open>store_call\<close> says how each store call of the request ends: it resolves, it
  resolves to an error value, or it throws; a write that does not resolve changes no row.
  \<open>others\<close> is what concurrent requests write to the seats table between this request's
  check and its reserving update.
\<close>

record reserve_env =
  service_role_key :: bool
  clock_start :: nat
  clock_check :: nat
  store_call :: "reserve_site \<Rightarrow> call_result"
  others :: "seat list \<Rightarrow> seat list"

text \<open>
  The \<open>error\<close> strings of both handlers. A constructor that carries a value stands for the
  template literal with that value interpolated: \<open>SeatsNotAvailable\<close> carries the row and
  number of every seat of the list, \<open>JustTakenBySomeoneElse\<close> the count \<open>failedCount\<close>,
  \<open>SeatsAlreadySold\<close> and \<open>SeatsBlocked\<close> the counts \<open>soldCount\<close> and \<open>blockedCount\<close>,
  \<open>CouldNotReserveSeats\<close> and \<open>CouldNotCreateBooking\<close> the store's message.
\<close>

datatype message =
    MissingSeatIdsOrShowId
  | ServerMisconfiguration
  | CouldNotCheckSeatStatus
  | SomeSeatsDoNotExist
  | SeatsNotAvailable "(string \<times> int) list"
  | CouldNotReserveSeats string
  | JustTakenBySomeoneElse int
  | InternalServerError
  | MissingRequiredFields
  | MustBeLoggedIn
  | ShowNotFound
  | CouldNotFetchSeats
  | SeatsNoLongerAvailable
  | SeatsAlreadySold nat
  | SeatsBlocked nat
  | CouldNotCreateBooking string

datatype reserve_response =
    ReserveOk nat "string list"
  | ReserveError nat message "string list option"

definition normalized_status :: "seat \<Rightarrow> string" where
  \<comment> \<open>\<open>((s.status as string) || "available").toString().toLowerCase()\<close>\<close>
  "normalized_status s =
     toLowerCase (if truthy (seat_status s) then the (seat_status s) else ''available'')"

definition hold_until :: "seat \<Rightarrow> nat" where
  \<comment> \<open>\<open>s.reserved_until ? new Date(s.reserved_until).getTime() : 0\<close>\<close>
  "hold_until s = (case seat_reserved_until s of None \<Rightarrow> 0 | Some t \<Rightarrow> t)"

definition is_unavailable :: "nat \<Rightarrow> seat \<Rightarrow> bool" where
  \<comment> \<open>the value the filter callback returns\<close>
  "is_unavailable now s =
     (let st = normalized_status s in
      if st = ''available'' then False
      else if st = ''reserved'' then
        (let until = hold_until s in
         if until \<noteq> 0 \<and> until > now then True else False)
      else True)"

definition is_expired_reserved :: "nat \<Rightarrow> seat \<Rightarrow> bool" where
  \<comment> \<open>the seats whose id the filter callback pushes to \<open>expiredReservedIds\<close>\<close>
  "is_expired_reserved now s =
     (let st = normalized_status s in
      if st = ''available'' then False
      else if st = ''reserved'' then
        (let until = hold_until s in
         if until \<noteq> 0 \<and> until > now then False else True)
      else False)"

definition hold_window :: nat where
  "hold_window = 10 * 60 * 1000"

definition cleanup_expired :: "reserve_env \<Rightarrow> string list \<Rightarrow> db \<Rightarrow> db" where
  \<comment> \<open>the cleanup write inside its own \<open>try\<close>: whatever its end, the handler goes on\<close>
  "cleanup_expired env expiredReservedIds d =
     (if expiredReservedIds \<noteq> [] \<and> store_call env Cleanup = Resolved
      then d\<lparr>tbl_seats := release_seats expiredReservedIds (tbl_seats d)\<rparr>
      else d)"

definition rollback_partial :: "reserve_env \<Rightarrow> string list \<Rightarrow> string list \<Rightarrow> db \<Rightarrow> reserve_response \<times> db" where
  \<comment> \<open>the branch \<open>updatedSeats.length !== seatIds.length\<close>\<close>
  "rollback_partial env ids reservedIds d =
     (let failedCount = int (length ids) - int (length reservedIds);
          conflict = ReserveError 409 (JustTakenBySomeoneElse failedCount) None in
      if reservedIds \<noteq> [] then
        (case store_call env Rollback of
           Resolved \<Rightarrow> (conflict, d\<lparr>tbl_seats := release_seats reservedIds (tbl_seats d)\<rparr>)
         | ReturnedError m \<Rightarrow> (conflict, d)
         | Threw \<Rightarrow> (ReserveError 500 InternalServerError None, d))
      else (conflict, d))"

definition reserve_checked :: "reserve_env \<Rightarrow> string list \<Rightarrow> string \<Rightarrow> db \<Rightarrow> reserve_response \<times> db" where
  \<comment> \<open>from the reserving update on; \<open>d\<close> is the store the update meets\<close>
  "reserve_checked env ids sid d =
     (let reservedUntil = clock_start env + hold_window in
      case store_call env ReserveUpdate of
        ReturnedError m \<Rightarrow> (ReserveError 500 (CouldNotReserveSeats m) None, d)
      | Threw \<Rightarrow> (ReserveError 500 InternalServerError None, d)
      | Resolved \<Rightarrow>
          let updatedSeats = filter (reservable ids sid) (tbl_seats d);
              d' = d\<lparr>tbl_seats := reserve_update ids sid reservedUntil (tbl_seats d)\<rparr> in
          if length updatedSeats \<noteq> length ids
          then rollback_partial env ids (map seat_id updatedSeats) d'
          else (ReserveOk reservedUntil (map seat_id updatedSeats), d'))"

definition POST_reserve :: "reserve_env \<Rightarrow> body \<Rightarrow> db \<Rightarrow> reserve_response \<times> db" where
  "POST_reserve env b d =
     (if seatIds b = None \<or> the (seatIds b) = [] \<or> \<not> truthy (showId b)
      then (ReserveError 400 MissingSeatIdsOrShowId None, d)
      else
        let ids = the (seatIds b); sid = the (showId b) in
        if \<not> service_role_key env
        then (ReserveError 500 ServerMisconfiguration None, d)
        else
          (case store_call env CheckSeats of
             ReturnedError m \<Rightarrow> (ReserveError 500 CouldNotCheckSeatStatus None, d)
           | Threw \<Rightarrow> (ReserveError 500 InternalServerError None, d)
           | Resolved \<Rightarrow>
               let currentSeats = select_seats_of_show ids sid (tbl_seats d) in
               if length currentSeats \<noteq> length ids
               then (ReserveError 400 SomeSeatsDoNotExist None, d)
               else
                 let now = clock_check env;
                     expiredReservedIds =
                       map seat_id (filter (is_expired_reserved now) currentSeats);
                     unavailableSeats = filter (is_unavailable now) currentSeats;
                     d1 = cleanup_expired env expiredReservedIds d in
                 if unavailableSeats \<noteq> []
                 then (ReserveError 409
                         (SeatsNotAvailable
                            (map (\<lambda>s. (seat_row s, seat_number s)) unavailableSeats))
                         (Some (map seat_id unavailableSeats)), d1)
                 else reserve_checked env ids sid
                        (d1\<lparr>tbl_seats := others env (tbl_seats d1)\<rparr>)))"

subsection \<open>The booking handler\<close>

datatype booking_site =
    GetUser | SelectShow | SelectSeats | SelectDiscount | IncrementDiscount | InsertBooking
  | SetDiscountUsed | PatchQrData | SellSeats | DecrementAvailable | SetTicketSent

text \<open>
  What \<open>sendTicketEmail\<close> does: it returns \<open>{ success, error? }\<close>, or it throws (an \<open>Error\<close>
  with its message, or another value).
\<close>

datatype email_result = EmailReturned bool "string option" | EmailThrew "string option"

text \<open>
  The environment of one booking request: the id of the session's user, how each store
  call ends, the reference \<open>generateBookingReference()\<close> draws, the clock, the id the store
  gives the inserted row, and what the email collaborator does.
\<close>

record booking_env =
  session_user :: "string option"
  booking_call :: "booking_site \<Rightarrow> call_result"
  generated_reference :: string
  clock_confirm :: nat
  inserted_id :: string
  email :: email_result

datatype booking_response =
    BookingOk string string bool "string option"
  | BookingError nat message

definition valid_booking_body :: "body \<Rightarrow> bool" where
  \<comment> \<open>the negation of the condition of the first \<open>if\<close>\<close>
  "valid_booking_body b =
     (\<not> (\<not> truthy (showId b) \<or> seatIds b = None \<or> the (seatIds b) = []
         \<or> \<not> truthy (customerName b) \<or> \<not> truthy (customerEmail b)
         \<or> totalAmount b = None \<or> the (totalAmount b) \<le> 0))"

definition single :: "'a list \<Rightarrow> 'a option" where
  \<comment> \<open>\<open>.single()\<close>: the row when exactly one row matches, an error otherwise\<close>
  "single rows = (case rows of [r] \<Rightarrow> Some r | _ \<Rightarrow> None)"

text \<open>What the handler holds once the show and the seats are fetched.\<close>

record fetched =
  f_ids :: "string list"
  f_show_id :: string
  f_user :: string
  f_show :: show_row
  f_seats :: "seat list"

definition fetch_requested :: "booking_env \<Rightarrow> body \<Rightarrow> db \<Rightarrow> booking_response + fetched" where
  \<comment> \<open>from the validation of the body to the check that every requested seat was found\<close>
  "fetch_requested env b d =
     (if \<not> valid_booking_body b then Inl (BookingError 400 MissingRequiredFields)
      else
        let sid = the (showId b); ids = the (seatIds b) in
        if booking_call env GetUser = Threw then Inl (BookingError 500 InternalServerError)
        else if \<not> truthy (session_user env) then Inl (BookingError 401 MustBeLoggedIn)
        else
          (case booking_call env SelectShow of
             Threw \<Rightarrow> Inl (BookingError 500 InternalServerError)
           | ReturnedError m \<Rightarrow> Inl (BookingError 404 ShowNotFound)
           | Resolved \<Rightarrow>
             (case single (filter (\<lambda>s. show_id s = sid) (tbl_shows d)) of
                None \<Rightarrow> Inl (BookingError 404 ShowNotFound)
              | Some sh \<Rightarrow>
                (case booking_call env SelectSeats of
                   Threw \<Rightarrow> Inl (BookingError 500 InternalServerError)
                 | ReturnedError m \<Rightarrow> Inl (BookingError 500 CouldNotFetchSeats)
                 | Resolved \<Rightarrow>
                     let sts = select_seats ids (tbl_seats d) in
                     if length sts \<noteq> length ids
                     then Inl (BookingError 400 SomeSeatsDoNotExist)
                     else Inr \<lparr>f_ids = ids, f_show_id = sid, f_user = the (session_user env),
                               f_show = sh, f_seats = sts\<rparr>))))"

definition status_check :: "seat list \<Rightarrow> message option" where
  \<comment> \<open>the seats that are neither reserved nor available, and the message they get\<close>
  "status_check sts =
     (let unavailableSeats =
            filter (\<lambda>s. seat_status s \<noteq> Some ''reserved'' \<and> seat_status s \<noteq> Some ''available'')
              sts in
      if unavailableSeats \<noteq> [] then
        let soldCount = length (filter (\<lambda>s. seat_status s = Some ''sold'') unavailableSeats);
            blockedCount =
              length (filter (\<lambda>s. seat_status s = Some ''blocked'') unavailableSeats);
            errorMsg0 = SeatsNoLongerAvailable;
            errorMsg1 = (if soldCount > 0 then SeatsAlreadySold soldCount else errorMsg0);
            errorMsg2 = (if blockedCount > 0 then SeatsBlocked blockedCount else errorMsg1)
        in Some errorMsg2
      else None)"

definition booking_checks :: "booking_env \<Rightarrow> body \<Rightarrow> db \<Rightarrow> booking_response + fetched" where
  \<comment> \<open>everything the handler does before its first write\<close>
  "booking_checks env b d =
     (case fetch_requested env b d of
        Inl r \<Rightarrow> Inl r
      | Inr f \<Rightarrow>
          (case status_check (f_seats f) of
             Some errorMsg \<Rightarrow> Inl (BookingError 400 errorMsg)
           | None \<Rightarrow> Inr f))"

definition unguarded_write :: "call_result \<Rightarrow> (db \<Rightarrow> db) \<Rightarrow> db \<Rightarrow> db option" where
  \<comment> \<open>an awaited write whose result is not inspected: an error value is dropped, a throw
      reaches the handler's outer \<open>catch\<close> (\<open>None\<close>)\<close>
  "unguarded_write r w d =
     (case r of Resolved \<Rightarrow> Some (w d) | ReturnedError m \<Rightarrow> Some d | Threw \<Rightarrow> None)"

definition guarded_write :: "call_result \<Rightarrow> (db \<Rightarrow> db) \<Rightarrow> db \<Rightarrow> db" where
  \<comment> \<open>an awaited write inside its own \<open>try\<close>\<close>
  "guarded_write r w d = (case r of Resolved \<Rightarrow> w d | _ \<Rightarrow> d)"

definition increment_uses :: "discount_code \<Rightarrow> db \<Rightarrow> db" where
  \<comment> \<open>\<open>.update({ current_uses: (code.current_uses || 0) + 1 }).eq("id", code.id)\<close>\<close>
  "increment_uses code d =
     d\<lparr>tbl_discount_codes :=
         map (\<lambda>c. if dc_id c = dc_id code
                  then c\<lparr>dc_current_uses :=
                          Some ((case dc_current_uses code of None \<Rightarrow> 0 | Some n \<Rightarrow> n) + 1)\<rparr>
                  else c) (tbl_discount_codes d)\<rparr>"

definition apply_discount :: "booking_env \<Rightarrow> body \<Rightarrow> db \<Rightarrow> db option" where
  \<comment> \<open>the lookup of the discount code and the increment of its counter; \<open>None\<close> when a
      call throws\<close>
  "apply_discount env b d =
     (if truthy (discountCode b) then
        (case booking_call env SelectDiscount of
           Threw \<Rightarrow> None
         | ReturnedError m \<Rightarrow> Some d
         | Resolved \<Rightarrow>
             (case single (filter (\<lambda>c. dc_code c = the (discountCode b)) (tbl_discount_codes d)) of
                None \<Rightarrow> Some d
              | Some code \<Rightarrow>
                  unguarded_write (booking_call env IncrementDiscount) (increment_uses code) d))
      else Some d)"

definition showTitle :: "show_row \<Rightarrow> string" where
  \<comment> \<open>\<open>show.title || show.ensemble?.title || "Forestilling"\<close>\<close>
  "showTitle sh =
     (if truthy (show_title sh) then the (show_title sh)
      else if truthy (show_ensemble_title sh) then the (show_ensemble_title sh)
      else ''Forestilling'')"

text \<open>
  Modelled from the spec: \<open>createQRCodeData\<close> of \<open>@/lib/utils/booking\<close> is not among the
  sources. The spec's Ticket Payload is a record of the booking id, the booking reference,
  the show id, title and datetime, the customer name and the seat summaries; the handler
  passes exactly these, in this order.
\<close>

definition createQRCodeData ::
  "string \<Rightarrow> string \<Rightarrow> string \<Rightarrow> string \<Rightarrow> string \<Rightarrow> string \<Rightarrow> (string \<times> string \<times> int) list
    \<Rightarrow> ticket_payload" where
  "createQRCodeData bid ref sid title dt name sts =
     \<lparr>tp_booking_id = bid, tp_booking_reference = ref, tp_show_id = sid, tp_show_title = title,
      tp_show_datetime = dt, tp_customer_name = name, tp_seats = sts\<rparr>"

definition qrData :: "booking_env \<Rightarrow> body \<Rightarrow> fetched \<Rightarrow> ticket_payload" where
  "qrData env b f =
     createQRCodeData [] (generated_reference env) (f_show_id f) (showTitle (f_show f))
       (show_datetime (f_show f)) (the (customerName b))
       (map (\<lambda>s. (seat_section s, seat_row s, seat_number s)) (f_seats f))"

definition new_booking :: "booking_env \<Rightarrow> body \<Rightarrow> fetched \<Rightarrow> booking" where
  \<comment> \<open>the row of the \<open>insert\<close>, with the id the store gives it\<close>
  "new_booking env b f =
     \<lparr>booking_id = inserted_id env,
      booking_user_id = f_user f,
      booking_show_id = f_show_id f,
      booking_seat_ids = f_ids f,
      booking_total_amount_nok = the (totalAmount b),
      booking_reference = generated_reference env,
      booking_qr_code_data = qrData env b f,
      booking_customer_name = the (customerName b),
      booking_customer_email = the (customerEmail b),
      booking_customer_phone = or_null (customerPhone b),
      booking_special_requests = or_null (specialRequests b),
      booking_status = ''confirmed'',
      booking_confirmed_at = clock_confirm env,
      booking_ticket_sent = False,
      booking_discount_code_used = None\<rparr>"

definition update_booking :: "string \<Rightarrow> (booking \<Rightarrow> booking) \<Rightarrow> db \<Rightarrow> db" where
  \<comment> \<open>\<open>.from("bookings").update(...).eq("id", booking.id)\<close>\<close>
  "update_booking bid w d =
     d\<lparr>tbl_bookings := map (\<lambda>bk. if booking_id bk = bid then w bk else bk) (tbl_bookings d)\<rparr>"

definition decrement_available :: "fetched \<Rightarrow> db \<Rightarrow> db" where
  \<comment> \<open>\<open>.update({ available_seats: show.available_seats - seatIds.length }).eq("id", showId)\<close>\<close>
  "decrement_available f d =
     d\<lparr>tbl_shows :=
         map (\<lambda>s. if show_id s = f_show_id f
                  then s\<lparr>show_available_seats :=
                          show_available_seats (f_show f) - int (length (f_ids f))\<rparr>
                  else s) (tbl_shows d)\<rparr>"

definition emailResult :: "booking_env \<Rightarrow> bool \<times> string option" where
  \<comment> \<open>\<open>emailResult\<close> after the \<open>try\<close> around \<open>sendTicketEmail\<close>: \<open>(success, error)\<close>\<close>
  "emailResult env =
     (case email env of
        EmailReturned ok err \<Rightarrow> (ok, err)
      | EmailThrew m \<Rightarrow>
          (False, Some (case m of Some x \<Rightarrow> x | None \<Rightarrow> ''Ukjent feil i e-postsending'')))"

definition send_ticket :: "booking_env \<Rightarrow> string \<Rightarrow> db \<Rightarrow> booking_response \<times> db" where
  \<comment> \<open>the email step: the dispatch, the write of \<open>ticket_sent\<close> and the response\<close>
  "send_ticket env bid d =
     (let (success, err) = emailResult env in
      case unguarded_write (booking_call env SetTicketSent)
             (update_booking bid (\<lambda>bk. bk\<lparr>booking_ticket_sent := success\<rparr>)) d of
        None \<Rightarrow> (BookingError 500 InternalServerError, d)
      | Some d' \<Rightarrow> (BookingOk bid (generated_reference env) success err, d'))"

definition commit_sale :: "booking_env \<Rightarrow> body \<Rightarrow> fetched \<Rightarrow> db \<Rightarrow> db + db" where
  \<comment> \<open>the writes between the insert and the email step, on the store that holds the new
      row: \<open>Inl\<close> the store when a write throws, \<open>Inr\<close> the store at the email step\<close>
  "commit_sale env b f d =
     (let bid = inserted_id env;
          d1 = (if truthy (discountCode b)
                then guarded_write (booking_call env SetDiscountUsed)
                       (update_booking bid
                          (\<lambda>bk. bk\<lparr>booking_discount_code_used := discountCode b\<rparr>)) d
                else d);
          updatedQrData = (qrData env b f)\<lparr>tp_booking_id := bid\<rparr> in
      case unguarded_write (booking_call env PatchQrData)
             (update_booking bid (\<lambda>bk. bk\<lparr>booking_qr_code_data := updatedQrData\<rparr>)) d1 of
        None \<Rightarrow> Inl d1
      | Some d2 \<Rightarrow>
      (case unguarded_write (booking_call env SellSeats)
              (\<lambda>x. x\<lparr>tbl_seats := sell_seats (f_ids f) (tbl_seats x)\<rparr>) d2 of
         None \<Rightarrow> Inl d2
       | Some d3 \<Rightarrow>
       (case unguarded_write (booking_call env DecrementAvailable) (decrement_available f) d3 of
          None \<Rightarrow> Inl d3
        | Some d4 \<Rightarrow> Inr d4)))"

definition until_email :: "booking_env \<Rightarrow> body \<Rightarrow> db \<Rightarrow> (booking_response \<times> db) + db" where
  \<comment> \<open>the handler up to the email step: \<open>Inl\<close> when the request ends before it, with the
      response and the store, \<open>Inr\<close> the store that the email step meets\<close>
  "until_email env b d =
     (case booking_checks env b d of
        Inl r \<Rightarrow> Inl (r, d)
      | Inr f \<Rightarrow>
        (case apply_discount env b d of
           None \<Rightarrow> Inl (BookingError 500 InternalServerError, d)
         | Some d1 \<Rightarrow>
           (case booking_call env InsertBooking of
              Threw \<Rightarrow> Inl (BookingError 500 InternalServerError, d1)
            | ReturnedError m \<Rightarrow> Inl (BookingError 500 (CouldNotCreateBooking m), d1)
            | Resolved \<Rightarrow>
              (case commit_sale env b f
                      (d1\<lparr>tbl_bookings := tbl_bookings d1 @ [new_booking env b f]\<rparr>) of
                 Inl d2 \<Rightarrow> Inl (BookingError 500 InternalServerError, d2)
               | Inr d2 \<Rightarrow> Inr d2))))"

definition POST_bookings :: "booking_env \<Rightarrow> body \<Rightarrow> db \<Rightarrow> booking_response \<times> db" where
  "POST_bookings env b d =
     (case until_email env b d of
        Inl r \<Rightarrow> r
      | Inr d' \<Rightarrow> send_ticket env (inserted_id env) d')"

subsection \<open>Notions used to state the properties\<close>

text \<open>
  A seat that the reservation contract calls unavailable: sold, blocked, or reserved with
  a hold that has not run out at the time \<open>now\<close>.
\<close>

definition claimed_unavailable :: "nat \<Rightarrow> seat \<Rightarrow> bool" where
  "claimed_unavailable now s =
     (seat_status s = Some ''sold'' \<or> seat_status s = Some ''blocked''
      \<or> (seat_status s = Some ''reserved''
          \<and> (case seat_reserved_until s of None \<Rightarrow> False | Some t \<Rightarrow> now < t)))"

text \<open>A row set back to available, with its hold cleared.\<close>

definition released :: "seat \<Rightarrow> seat" where
  "released s = s\<lparr>seat_status := Some ''available'', seat_reserved_until := None\<rparr>"

text \<open>
  The seats table as the reserving update of a request finds it: after the request's own
  cleanup write and after the writes of concurrent requests.
\<close>

definition seats_met :: "reserve_env \<Rightarrow> string list \<Rightarrow> string \<Rightarrow> db \<Rightarrow> seat list" where
  "seats_met env ids sid d =
     others env (tbl_seats (cleanup_expired env
       (map seat_id (filter (is_expired_reserved (clock_check env))
          (select_seats_of_show ids sid (tbl_seats d)))) d))"

subsection \<open>A small theatre\<close>

text \<open>
  Two shows; six seats of the first (available, sold, held, held with a hold that has run
  out, without a status, available) and one seat of the second. The clock of the requests
  reads 1000000 and 1000003.
\<close>

definition ex_seat :: "string \<Rightarrow> string \<Rightarrow> int \<Rightarrow> string option \<Rightarrow> nat option \<Rightarrow> seat" where
  "ex_seat i sh n st until =
     \<lparr>seat_id = i, seat_show_id = sh, seat_section = ''Hovedsal'', seat_row = ''A'',
      seat_number = n, seat_price_nok = 350, seat_status = st, seat_reserved_until = until\<rparr>"

definition ex_seats :: "seat list" where
  "ex_seats =
     [ex_seat ''a1'' ''hamlet'' 1 (Some ''available'') None,
      ex_seat ''a2'' ''hamlet'' 2 (Some ''sold'') None,
      ex_seat ''a3'' ''hamlet'' 3 (Some ''reserved'') (Some 2000000),
      ex_seat ''a4'' ''hamlet'' 4 (Some ''reserved'') (Some 500),
      ex_seat ''a5'' ''hamlet'' 5 None None,
      ex_seat ''a6'' ''hamlet'' 6 (Some ''available'') None,
      ex_seat ''b1'' ''othello'' 1 (Some ''available'') None]"

definition ex_hamlet :: show_row where
  "ex_hamlet =
     \<lparr>show_id = ''hamlet'', show_title = Some ''Hamlet'', show_ensemble_title = None,
      show_datetime = ''2026-03-01T19:00'', show_available_seats = 4\<rparr>"

definition ex_othello :: show_row where
  "ex_othello =
     \<lparr>show_id = ''othello'', show_title = None, show_ensemble_title = Some ''Othello'',
      show_datetime = ''2026-03-02T19:00'', show_available_seats = 1\<rparr>"

definition ex_db :: db where
  "ex_db = \<lparr>tbl_seats = ex_seats, tbl_bookings = [], tbl_shows = [ex_hamlet, ex_othello],
            tbl_discount_codes = []\<rparr>"

definition ex_body :: "string list \<Rightarrow> int \<Rightarrow> body" where
  "ex_body ids amount =
     \<lparr>showId = Some ''hamlet'', seatIds = Some ids, customerName = Some ''Kari Nordmann'',
      customerEmail = Some ''kari@example.no'', customerPhone = None, specialRequests = None,
      totalAmount = Some amount, discountCode = None\<rparr>"

definition ex_reserve_env :: reserve_env where
  "ex_reserve_env =
     \<lparr>service_role_key = True, clock_start = 1000000, clock_check = 1000003,
      store_call = (\<lambda>c. Resolved), others = (\<lambda>tbl. tbl)\<rparr>"

text \<open>A concurrent request takes seat a6 between the check and the reserving update.\<close>

definition ex_race_env :: reserve_env where
  "ex_race_env =
     ex_reserve_env\<lparr>others :=
       (\<lambda>tbl. map (\<lambda>s. if seat_id s = ''a6''
                         then s\<lparr>seat_status := Some ''reserved'',
                                seat_reserved_until := Some 1500000\<rparr>
                         else s) tbl)\<rparr>"

text \<open>The cleanup write of the request fails.\<close>

definition ex_failing_cleanup_env :: reserve_env where
  "ex_failing_cleanup_env =
     ex_reserve_env\<lparr>store_call :=
       (\<lambda>c. if c = Cleanup then ReturnedError ''connection reset'' else Resolved)\<rparr>"

definition ex_booking_env :: booking_env where
  "ex_booking_env =
     \<lparr>session_user = Some ''user-7'', booking_call = (\<lambda>c. Resolved),
      generated_reference = ''TK-20260301-X4Q9'', clock_confirm = 1000100,
      inserted_id = ''bk-1'', email = EmailReturned True None\<rparr>"

text \<open>The email collaborator throws.\<close>

definition ex_email_down_env :: booking_env where
  "ex_email_down_env = ex_booking_env\<lparr>email := EmailThrew (Some ''connect ETIMEDOUT'')\<rparr>"

subsection \<open>Notions used to state the properties of the booking handler\<close>

text \<open>
  The request gets as far as the insert of the booking row, and the insert resolves: the
  checks pass, no call of the discount step throws, and the store accepts the row.
\<close>

definition booking_inserted :: "booking_env \<Rightarrow> body \<Rightarrow> db \<Rightarrow> bool" where
  "booking_inserted env b d =
     (case booking_checks env b d of
        Inl r \<Rightarrow> False
      | Inr f \<Rightarrow> apply_discount env b d \<noteq> None \<and> booking_call env InsertBooking = Resolved)"

definition email_succeeded :: "email_result \<Rightarrow> bool" where
  "email_succeeded r = (case r of EmailReturned ok e \<Rightarrow> ok | EmailThrew m \<Rightarrow> False)"

definition is_rejection :: "booking_response \<Rightarrow> bool" where
  "is_rejection r = (case r of BookingError st m \<Rightarrow> True | BookingOk i ref sent err \<Rightarrow> False)"

text \<open>
  The columns of a booking row that identify the sale: id, show, seats, amount and
  status.
\<close>

definition core :: "booking \<Rightarrow> string \<times> string \<times> string list \<times> int \<times> string" where
  "core bk = (booking_id bk, booking_show_id bk, booking_seat_ids bk,
              booking_total_amount_nok bk, booking_status bk)"

text \<open>The store with other prices: seat \<open>i\<close> costs \<open>q i\<close>.\<close>

definition reprice :: "(string \<Rightarrow> int) \<Rightarrow> db \<Rightarrow> db" where
  "reprice q d =
     d\<lparr>tbl_seats := map (\<lambda>s. s\<lparr>seat_price_nok := q (seat_id s)\<rparr>) (tbl_seats d)\<rparr>"

definition reprice_fetched :: "(string \<Rightarrow> int) \<Rightarrow> fetched \<Rightarrow> fetched" where
  "reprice_fetched q f =
     f\<lparr>f_seats := map (\<lambda>s. s\<lparr>seat_price_nok := q (seat_id s)\<rparr>) (f_seats f)\<rparr>"

section \<open>Properties of the reserve handler\<close>

subsection \<open>Store operations\<close>

lemma claimed_unavailable_is_unavailable:
  "claimed_unavailable now s \<Longrightarrow> is_unavailable now s"
  by (auto simp: claimed_unavailable_def is_unavailable_def normalized_status_def truthy_def
      toLowerCase_def lower_char_def hold_until_def split: option.splits)

lemma null_status_classified:
  assumes "seat_status s = None \<or> seat_status s = Some []"
  shows "\<not> is_unavailable now s" "\<not> is_expired_reserved now s"
  using assms
  by (auto simp: is_unavailable_def is_expired_reserved_def normalized_status_def truthy_def
      toLowerCase_def lower_char_def)

lemma release_seats_rowwise:
  "list_all2 (\<lambda>s s'. s' = s \<or> s' = released s) tbl (release_seats ids tbl)"
  by (simp add: release_seats_def released_def list_all2_map2 list_all2_same)

lemma cleanup_expired_rowwise:
  "list_all2 (\<lambda>s s'. s' = s \<or> s' = released s)
     (tbl_seats d) (tbl_seats (cleanup_expired env E d))"
  by (simp add: cleanup_expired_def release_seats_rowwise list_all2_same)

lemma cleanup_expired_bookings: "tbl_bookings (cleanup_expired env E d) = tbl_bookings d"
  by (simp add: cleanup_expired_def)

lemma cleanup_expired_overwritten:
  "(cleanup_expired env E d)\<lparr>tbl_seats := tbl\<rparr> = d\<lparr>tbl_seats := tbl\<rparr>"
  by (simp add: cleanup_expired_def)

lemma rollback_is_map:
  assumes "distinct (map seat_id met)"
  shows "release_seats (map seat_id (filter (reservable ids sid) met))
           (reserve_update ids sid u met) =
         map (\<lambda>s. if reservable ids sid s then released s else s) met"
proof -
  have key: "\<And>s. s \<in> set met \<Longrightarrow>
      (seat_id s \<in> seat_id ` {x \<in> set met. reservable ids sid x}) = reservable ids sid s"
    using assms by (auto simp: distinct_map inj_on_def)
  show ?thesis
    unfolding release_seats_def reserve_update_def map_map
    by (rule map_cong[OF refl]) (auto simp: key released_def)
qed

lemma no_reservable_update:
  "filter (reservable ids sid) met = [] \<Longrightarrow>
     reserve_update ids sid u met = map (\<lambda>s. if reservable ids sid s then released s else s) met"
  unfolding reserve_update_def by (rule map_cong[OF refl]) (auto simp: filter_empty_conv)

lemma rollback_partial_cases:
  "(\<exists>st m. fst (rollback_partial env ids rids d) = ReserveError st m None)
   \<and> (snd (rollback_partial env ids rids d) = d
      \<or> snd (rollback_partial env ids rids d) = d\<lparr>tbl_seats := release_seats rids (tbl_seats d)\<rparr>)"
  by (simp add: rollback_partial_def Let_def split: call_result.splits)

subsection \<open>Counting fetched rows\<close>

lemma length_filter_strict:
  assumes "\<And>x. P x \<Longrightarrow> Q x" "x \<in> set xs" "Q x" "\<not> P x"
  shows "length (filter P xs) < length (filter Q xs)"
proof -
  have le: "length (filter P ys) \<le> length (filter Q ys)" for ys
    using assms(1) by (induction ys) auto
  from assms(2) show ?thesis
  proof (induction xs)
    case Nil
    then show ?case by simp
  next
    case (Cons y ys)
    show ?case
    proof (cases "y = x")
      case True
      then show ?thesis using assms(3,4) le[of ys] by simp
    next
      case False
      with Cons have "length (filter P ys) < length (filter Q ys)" by simp
      then show ?thesis using assms(1)[of y] by auto
    qed
  qed
qed

lemma fetched_ids_card:
  assumes "distinct (map seat_id tbl)"
  shows "length (filter (\<lambda>s. seat_id s \<in> set ids \<and> Q s) tbl) =
         card (seat_id ` {s \<in> set tbl. seat_id s \<in> set ids \<and> Q s})"
proof -
  let ?F = "filter (\<lambda>s. seat_id s \<in> set ids \<and> Q s) tbl"
  have "distinct (map seat_id ?F)" using assms by (rule distinct_map_filter)
  then have "card (set (map seat_id ?F)) = length (map seat_id ?F)" by (rule distinct_card)
  then show ?thesis by simp
qed

lemma duplicate_ids_fetch_short:
  assumes "distinct (map seat_id tbl)" "\<not> distinct ids"
  shows "length (filter (\<lambda>s. seat_id s \<in> set ids \<and> Q s) tbl) < length ids"
proof -
  have "seat_id ` {s \<in> set tbl. seat_id s \<in> set ids \<and> Q s} \<subseteq> set ids" by auto
  then have "card (seat_id ` {s \<in> set tbl. seat_id s \<in> set ids \<and> Q s}) \<le> card (set ids)"
    by (simp add: card_mono)
  moreover have "card (set ids) < length ids"
    using assms(2) card_length[of ids] card_distinct[of ids]
    by (cases "card (set ids) = length ids") auto
  ultimately show ?thesis using fetched_ids_card[OF assms(1), of ids Q] by simp
qed

lemma missing_id_fetch_short:
  assumes "distinct (map seat_id tbl)" "x \<in> set ids" "x \<notin> seat_id ` set tbl"
  shows "length (filter (\<lambda>s. seat_id s \<in> set ids \<and> Q s) tbl) < length ids"
proof -
  have "seat_id ` {s \<in> set tbl. seat_id s \<in> set ids \<and> Q s} \<subseteq> set ids - {x}"
    using assms(3) by auto
  then have "card (seat_id ` {s \<in> set tbl. seat_id s \<in> set ids \<and> Q s})
               \<le> card (set ids - {x})"
    by (simp add: card_mono)
  moreover have "card (set ids - {x}) < card (set ids)"
    using assms(2) by (intro card_Diff1_less) simp_all
  moreover have "card (set ids) \<le> length ids" by (rule card_length)
  ultimately show ?thesis using fetched_ids_card[OF assms(1), of ids Q] by simp
qed

subsection \<open>The handler, phase by phase\<close>

text \<open>A request that passes the validation and finds every requested seat in the show.\<close>

lemma POST_reserve_checked:
  assumes "seatIds b = Some ids" "ids \<noteq> []" "showId b = Some sid" "sid \<noteq> []"
    and "service_role_key env" "store_call env CheckSeats = Resolved"
    and "length (select_seats_of_show ids sid (tbl_seats d)) = length ids"
  shows "POST_reserve env b d =
    (let currentSeats = select_seats_of_show ids sid (tbl_seats d);
         unavailableSeats = filter (is_unavailable (clock_check env)) currentSeats;
         d1 = cleanup_expired env
                (map seat_id (filter (is_expired_reserved (clock_check env)) currentSeats)) d in
     if unavailableSeats \<noteq> []
     then (ReserveError 409
             (SeatsNotAvailable (map (\<lambda>s. (seat_row s, seat_number s)) unavailableSeats))
             (Some (map seat_id unavailableSeats)), d1)
     else reserve_checked env ids sid (d\<lparr>tbl_seats := seats_met env ids sid d\<rparr>))"
  using assms
  by (simp add: POST_reserve_def Let_def truthy_def seats_met_def cleanup_expired_overwritten)

lemma reserve_checked_resolved:
  assumes "store_call env ReserveUpdate = Resolved"
  shows "reserve_checked env ids sid d =
    (let updatedSeats = filter (reservable ids sid) (tbl_seats d);
         d' = d\<lparr>tbl_seats :=
                  reserve_update ids sid (clock_start env + hold_window) (tbl_seats d)\<rparr> in
     if length updatedSeats \<noteq> length ids
     then rollback_partial env ids (map seat_id updatedSeats) d'
     else (ReserveOk (clock_start env + hold_window) (map seat_id updatedSeats), d'))"
  using assms by (simp add: reserve_checked_def Let_def)

text \<open>A request whose seats are all eligible, when the reserving update resolves.\<close>

lemma POST_reserve_eligible:
  assumes "seatIds b = Some ids" "ids \<noteq> []" "showId b = Some sid" "sid \<noteq> []"
    and "service_role_key env" "store_call env CheckSeats = Resolved"
    and "length (select_seats_of_show ids sid (tbl_seats d)) = length ids"
    and "\<forall>s \<in> set (select_seats_of_show ids sid (tbl_seats d)).
           \<not> is_unavailable (clock_check env) s"
    and "store_call env ReserveUpdate = Resolved"
    and "met = seats_met env ids sid d"
  shows "POST_reserve env b d =
           (if length (filter (reservable ids sid) met) = length ids
            then (ReserveOk (clock_start env + hold_window)
                    (map seat_id (filter (reservable ids sid) met)),
                  d\<lparr>tbl_seats := reserve_update ids sid (clock_start env + hold_window) met\<rparr>)
            else rollback_partial env ids (map seat_id (filter (reservable ids sid) met))
                   (d\<lparr>tbl_seats :=
                        reserve_update ids sid (clock_start env + hold_window) met\<rparr>))"
proof -
  have U: "filter (is_unavailable (clock_check env))
             (select_seats_of_show ids sid (tbl_seats d)) = []"
    using assms(8) by (simp add: filter_empty_conv)
  show ?thesis
    using POST_reserve_checked[OF assms(1-7)] U reserve_checked_resolved[OF assms(9)] assms(10)
    by (simp add: Let_def)
qed

text \<open>The partial-update branch, when the rollback write resolves.\<close>

lemma POST_reserve_partial:
  assumes "seatIds b = Some ids" "ids \<noteq> []" "showId b = Some sid" "sid \<noteq> []"
    and "service_role_key env" "store_call env CheckSeats = Resolved"
    and "length (select_seats_of_show ids sid (tbl_seats d)) = length ids"
    and "\<forall>s \<in> set (select_seats_of_show ids sid (tbl_seats d)).
           \<not> is_unavailable (clock_check env) s"
    and "store_call env ReserveUpdate = Resolved"
    and "met = seats_met env ids sid d"
    and "distinct (map seat_id met)"
    and "length (filter (reservable ids sid) met) < length ids"
    and "store_call env Rollback = Resolved"
  shows "POST_reserve env b d =
           (ReserveError 409
              (JustTakenBySomeoneElse
                 (int (length ids) - int (length (filter (reservable ids sid) met)))) None,
            d\<lparr>tbl_seats := map (\<lambda>s. if reservable ids sid s then released s else s) met\<rparr>)"
  using POST_reserve_eligible[OF assms(1-10)] assms(12,13)
    rollback_is_map[OF assms(11), of ids sid] no_reservable_update[of ids sid met]
  by (simp add: rollback_partial_def Let_def)

subsection \<open>The small theatre, evaluated\<close>

lemma ex_body_fields:
  "seatIds (ex_body ids amount) = Some ids"
  "showId (ex_body ids amount) = Some ''hamlet''"
  "totalAmount (ex_body ids amount) = Some amount"
  "discountCode (ex_body ids amount) = None"
  by (simp_all add: ex_body_def)

lemma ex_reserve_env_calls:
  "service_role_key ex_reserve_env"
  "store_call ex_reserve_env c = Resolved"
  "others ex_reserve_env = (\<lambda>tbl. tbl)"
  "clock_start ex_reserve_env = 1000000"
  "clock_check ex_reserve_env = 1000003"
  by (simp_all add: ex_reserve_env_def)

lemma ex_race_env_calls:
  "service_role_key ex_race_env"
  "store_call ex_race_env c = Resolved"
  "clock_start ex_race_env = 1000000"
  "clock_check ex_race_env = 1000003"
  by (simp_all add: ex_race_env_def ex_reserve_env_def)

lemmas classify_defs =
  is_unavailable_def is_expired_reserved_def normalized_status_def truthy_def toLowerCase_def
  lower_char_def hold_until_def

lemma ex_distinct_ids: "distinct (map seat_id (tbl_seats ex_db))"
  by (simp add: ex_db_def ex_seats_def ex_seat_def)

subsection \<open>Conflict on unavailable seats\<close>

text \<open>
  Claim C2. Let a reserve request name a seat of the show that is unavailable: sold,
  blocked, or reserved with a hold that has not run out. Then the request is answered
  with an error and reserves nothing: each row of the seats table is afterwards what it
  was, or that row released by the cleanup of holds that have run out, so that no row has
  become reserved; the bookings are untouched. When the request passes the validation and
  finds each requested seat in the show, the answer has status 409 and a list
  \<open>unavailableSeatIds\<close> that holds the id of every unavailable requested seat, not only
  of the first.
\<close>

theorem reserve_conflict_lists_every_unavailable_seat:
  assumes "seatIds b = Some ids" "showId b = Some sid"
    and "\<exists>s \<in> set (select_seats_of_show ids sid (tbl_seats d)).
           claimed_unavailable (clock_check env) s"
  shows "(\<exists>st m u. fst (POST_reserve env b d) = ReserveError st m u)
         \<and> list_all2 (\<lambda>s s'. s' = s \<or> s' = released s)
             (tbl_seats d) (tbl_seats (snd (POST_reserve env b d)))
         \<and> tbl_bookings (snd (POST_reserve env b d)) = tbl_bookings d
         \<and> (sid \<noteq> [] \<and> service_role_key env \<and> store_call env CheckSeats = Resolved
              \<and> length (select_seats_of_show ids sid (tbl_seats d)) = length ids
            \<longrightarrow> (\<exists>seatList unavailableSeatIds.
                   fst (POST_reserve env b d) =
                     ReserveError 409 (SeatsNotAvailable seatList) (Some unavailableSeatIds)
                   \<and> (\<forall>s \<in> set (select_seats_of_show ids sid (tbl_seats d)).
                         claimed_unavailable (clock_check env) s
                         \<longrightarrow> seat_id s \<in> set unavailableSeatIds)))"
proof -
  let ?cur = "select_seats_of_show ids sid (tbl_seats d)"
  let ?U = "filter (is_unavailable (clock_check env)) ?cur"
  let ?d1 = "cleanup_expired env
                (map seat_id (filter (is_expired_reserved (clock_check env)) ?cur)) d"
  from assms(3) have ne: "?U \<noteq> []"
    by (auto simp: filter_empty_conv dest: claimed_unavailable_is_unavailable)
  have all: "\<forall>s \<in> set ?cur. claimed_unavailable (clock_check env) s
               \<longrightarrow> seat_id s \<in> set (map seat_id ?U)"
    by (auto dest: claimed_unavailable_is_unavailable)
  have cases: "(\<exists>st m. POST_reserve env b d = (ReserveError st m None, d))
     \<or> (sid \<noteq> [] \<and> service_role_key env \<and> store_call env CheckSeats = Resolved
         \<and> length ?cur = length ids
         \<and> POST_reserve env b d =
             (ReserveError 409 (SeatsNotAvailable (map (\<lambda>s. (seat_row s, seat_number s)) ?U))
                (Some (map seat_id ?U)), ?d1))"
    using assms(1,2) ne
    by (auto simp: POST_reserve_def Let_def truthy_def split: call_result.splits)
  then show ?thesis
  proof
    assume "\<exists>st m. POST_reserve env b d = (ReserveError st m None, d)"
    then obtain st m where P: "POST_reserve env b d = (ReserveError st m None, d)" by blast
    have "\<not> (sid \<noteq> [] \<and> service_role_key env \<and> store_call env CheckSeats = Resolved
              \<and> length ?cur = length ids)"
    proof
      assume "sid \<noteq> [] \<and> service_role_key env \<and> store_call env CheckSeats = Resolved
              \<and> length ?cur = length ids"
      moreover have "ids \<noteq> []" using assms(3) by (auto simp: select_seats_of_show_def)
      ultimately have "POST_reserve env b d =
             (ReserveError 409 (SeatsNotAvailable (map (\<lambda>s. (seat_row s, seat_number s)) ?U))
                (Some (map seat_id ?U)), ?d1)"
        using POST_reserve_checked[OF assms(1) _ assms(2), of env d] ne by (simp add: Let_def)
      with P show False by simp
    qed
    with P show ?thesis by (simp add: list_all2_same)
  next
    assume "sid \<noteq> [] \<and> service_role_key env \<and> store_call env CheckSeats = Resolved
         \<and> length ?cur = length ids
         \<and> POST_reserve env b d =
             (ReserveError 409 (SeatsNotAvailable (map (\<lambda>s. (seat_row s, seat_number s)) ?U))
                (Some (map seat_id ?U)), ?d1)"
    then have P: "POST_reserve env b d =
             (ReserveError 409 (SeatsNotAvailable (map (\<lambda>s. (seat_row s, seat_number s)) ?U))
                (Some (map seat_id ?U)), ?d1)" by simp
    show ?thesis
      unfolding P using all cleanup_expired_rowwise[of d env] cleanup_expired_bookings[of env _ d]
      by (simp only: fst_conv snd_conv) blast
  qed
qed

text \<open>
  At the small theatre: seats a1 (available), a2 (sold) and a3 (held) are requested; the
  answer names a2 and a3, and the seats table is as before.
\<close>

theorem reserve_conflict_lists_every_unavailable_seat_witness:
  "\<exists>seatList d'.
     POST_reserve ex_reserve_env (ex_body [''a1'', ''a2'', ''a3''] 1050) ex_db =
       (ReserveError 409 (SeatsNotAvailable seatList) (Some [''a2'', ''a3'']), d')
     \<and> tbl_seats d' = ex_seats"
proof -
  let ?b = "ex_body [''a1'', ''a2'', ''a3''] 1050"
  have cur: "select_seats_of_show [''a1'', ''a2'', ''a3''] ''hamlet'' (tbl_seats ex_db) =
      [ex_seat ''a1'' ''hamlet'' 1 (Some ''available'') None,
       ex_seat ''a2'' ''hamlet'' 2 (Some ''sold'') None,
       ex_seat ''a3'' ''hamlet'' 3 (Some ''reserved'') (Some 2000000)]"
    by (simp add: ex_db_def ex_seats_def ex_seat_def select_seats_of_show_def)
  have len: "length (select_seats_of_show [''a1'', ''a2'', ''a3''] ''hamlet'' (tbl_seats ex_db)) =
             length [''a1'', ''a2'', ''a3'']"
    unfolding cur by simp
  have un: "\<exists>s \<in> set (select_seats_of_show [''a1'', ''a2'', ''a3''] ''hamlet'' (tbl_seats ex_db)).
              claimed_unavailable (clock_check ex_reserve_env) s"
    unfolding cur by (simp add: claimed_unavailable_def ex_seat_def)
  from reserve_conflict_lists_every_unavailable_seat
         [where b = ?b, OF ex_body_fields(1) ex_body_fields(2) un] len
  have "\<exists>seatList unavailableSeatIds.
          fst (POST_reserve ex_reserve_env ?b ex_db) =
            ReserveError 409 (SeatsNotAvailable seatList) (Some unavailableSeatIds)"
    by (simp add: ex_reserve_env_calls) blast
  moreover have "POST_reserve ex_reserve_env ?b ex_db =
      (ReserveError 409 (SeatsNotAvailable [(''A'', 2), (''A'', 3)]) (Some [''a2'', ''a3'']), ex_db)"
    unfolding POST_reserve_checked
                [OF ex_body_fields(1) _ ex_body_fields(2) _ ex_reserve_env_calls(1,2) len,
                 simplified] cur
    by (simp add: classify_defs ex_seat_def ex_reserve_env_calls cleanup_expired_def)
  ultimately show ?thesis by (simp add: ex_db_def)
qed

subsection \<open>The reserving update\<close>

text \<open>
  Claim C4. A reserve request that passes the validation, finds each requested seat in the
  show and finds all of them eligible issues one update of the seats table, and the update
  is conditional: of the table it meets, exactly the rows with \<open>id\<close> among \<open>seatIds\<close>,
  \<open>show_id = showId\<close> and \<open>status = available\<close> get \<open>status = reserved\<close> and
  \<open>reserved_until\<close> = the clock at the start of the request + 10 minutes; every other row is
  untouched. When the update has changed as many rows as seats were requested (full
  success), the answer is that \<open>reservedUntil\<close> with the ids of the rows, and the store is
  the updated one; otherwise the handler enters the partial-update branch on the updated
  store.
\<close>

theorem reserve_issues_one_conditional_update:
  assumes "seatIds b = Some ids" "ids \<noteq> []" "showId b = Some sid" "sid \<noteq> []"
    and "service_role_key env" "store_call env CheckSeats = Resolved"
    and "length (select_seats_of_show ids sid (tbl_seats d)) = length ids"
    and "\<forall>s \<in> set (select_seats_of_show ids sid (tbl_seats d)).
           \<not> is_unavailable (clock_check env) s"
    and "store_call env ReserveUpdate = Resolved"
    and "met = seats_met env ids sid d"
    and "reservedUntil = clock_start env + 10 * 60 * 1000"
  shows "POST_reserve env b d =
           (if length (filter (reservable ids sid) met) = length ids
            then (ReserveOk reservedUntil (map seat_id (filter (reservable ids sid) met)),
                  d\<lparr>tbl_seats := reserve_update ids sid reservedUntil met\<rparr>)
            else rollback_partial env ids (map seat_id (filter (reservable ids sid) met))
                   (d\<lparr>tbl_seats := reserve_update ids sid reservedUntil met\<rparr>))
         \<and> list_all2
              (\<lambda>s s'. s' = (if seat_id s \<in> set ids \<and> seat_show_id s = sid
                                \<and> seat_status s = Some ''available''
                             then s\<lparr>seat_status := Some ''reserved'',
                                    seat_reserved_until := Some reservedUntil\<rparr>
                             else s))
              met (reserve_update ids sid reservedUntil met)"
proof -
  have u: "reservedUntil = clock_start env + hold_window"
    using assms(11) by (simp add: hold_window_def)
  have R: "list_all2
              (\<lambda>s s'. s' = (if seat_id s \<in> set ids \<and> seat_show_id s = sid
                                \<and> seat_status s = Some ''available''
                             then s\<lparr>seat_status := Some ''reserved'',
                                    seat_reserved_until := Some reservedUntil\<rparr>
                             else s))
              met (reserve_update ids sid reservedUntil met)"
    by (simp add: reserve_update_def reservable_def list_all2_map2 list_all2_same)
  show ?thesis
    using POST_reserve_eligible[OF assms(1-10)] R unfolding u by simp
qed

text \<open>
  At the small theatre: seats a1, a4 (its hold has run out) and a6 are requested; all
  three are reserved until 1600000 and no other row changes.
\<close>

theorem reserve_issues_one_conditional_update_witness:
  "POST_reserve ex_reserve_env (ex_body [''a1'', ''a4'', ''a6''] 1050) ex_db =
     (ReserveOk 1600000 [''a1'', ''a4'', ''a6''],
      ex_db\<lparr>tbl_seats :=
        [ex_seat ''a1'' ''hamlet'' 1 (Some ''reserved'') (Some 1600000),
         ex_seat ''a2'' ''hamlet'' 2 (Some ''sold'') None,
         ex_seat ''a3'' ''hamlet'' 3 (Some ''reserved'') (Some 2000000),
         ex_seat ''a4'' ''hamlet'' 4 (Some ''reserved'') (Some 1600000),
         ex_seat ''a5'' ''hamlet'' 5 None None,
         ex_seat ''a6'' ''hamlet'' 6 (Some ''reserved'') (Some 1600000),
         ex_seat ''b1'' ''othello'' 1 (Some ''available'') None]\<rparr>)"
proof -
  have cur: "select_seats_of_show [''a1'', ''a4'', ''a6''] ''hamlet'' (tbl_seats ex_db) =
      [ex_seat ''a1'' ''hamlet'' 1 (Some ''available'') None,
       ex_seat ''a4'' ''hamlet'' 4 (Some ''reserved'') (Some 500),
       ex_seat ''a6'' ''hamlet'' 6 (Some ''available'') None]"
    by (simp add: ex_db_def ex_seats_def ex_seat_def select_seats_of_show_def)
  have len: "length (select_seats_of_show [''a1'', ''a4'', ''a6''] ''hamlet'' (tbl_seats ex_db)) =
             length [''a1'', ''a4'', ''a6'']"
    unfolding cur by simp
  have el: "\<forall>s \<in> set (select_seats_of_show [''a1'', ''a4'', ''a6''] ''hamlet'' (tbl_seats ex_db)).
              \<not> is_unavailable (clock_check ex_reserve_env) s"
    unfolding cur by (simp add: ex_seat_def ex_reserve_env_calls classify_defs)
  have met: "seats_met ex_reserve_env [''a1'', ''a4'', ''a6''] ''hamlet'' ex_db =
      [ex_seat ''a1'' ''hamlet'' 1 (Some ''available'') None,
       ex_seat ''a2'' ''hamlet'' 2 (Some ''sold'') None,
       ex_seat ''a3'' ''hamlet'' 3 (Some ''reserved'') (Some 2000000),
       ex_seat ''a4'' ''hamlet'' 4 (Some ''available'') None,
       ex_seat ''a5'' ''hamlet'' 5 None None,
       ex_seat ''a6'' ''hamlet'' 6 (Some ''available'') None,
       ex_seat ''b1'' ''othello'' 1 (Some ''available'') None]"
    unfolding seats_met_def cur
    by (simp add: ex_seat_def ex_reserve_env_calls classify_defs cleanup_expired_def
        release_seats_def ex_db_def ex_seats_def)
  have upd: "filter (reservable [''a1'', ''a4'', ''a6''] ''hamlet'')
               (seats_met ex_reserve_env [''a1'', ''a4'', ''a6''] ''hamlet'' ex_db) =
      [ex_seat ''a1'' ''hamlet'' 1 (Some ''available'') None,
       ex_seat ''a4'' ''hamlet'' 4 (Some ''available'') None,
       ex_seat ''a6'' ''hamlet'' 6 (Some ''available'') None]"
    unfolding met by (simp add: reservable_def ex_seat_def)
  have res: "reserve_update [''a1'', ''a4'', ''a6''] ''hamlet'' 1600000
               (seats_met ex_reserve_env [''a1'', ''a4'', ''a6''] ''hamlet'' ex_db) =
      [ex_seat ''a1'' ''hamlet'' 1 (Some ''reserved'') (Some 1600000),
       ex_seat ''a2'' ''hamlet'' 2 (Some ''sold'') None,
       ex_seat ''a3'' ''hamlet'' 3 (Some ''reserved'') (Some 2000000),
       ex_seat ''a4'' ''hamlet'' 4 (Some ''reserved'') (Some 1600000),
       ex_seat ''a5'' ''hamlet'' 5 None None,
       ex_seat ''a6'' ''hamlet'' 6 (Some ''reserved'') (Some 1600000),
       ex_seat ''b1'' ''othello'' 1 (Some ''available'') None]"
    unfolding met by (simp add: reserve_update_def reservable_def ex_seat_def)
  have clock: "(1600000::nat) = clock_start ex_reserve_env + 10 * 60 * 1000"
    by (simp add: ex_reserve_env_calls)
  from reserve_issues_one_conditional_update
         [OF ex_body_fields(1) _ ex_body_fields(2) _ ex_reserve_env_calls(1,2) len el
             ex_reserve_env_calls(2) refl clock]
  show ?thesis unfolding upd res by (simp add: ex_seat_def)
qed

subsection \<open>The race\<close>

text \<open>
  Claim C6. When the reserving update of a request changes fewer rows than seats were
  requested, and the rollback write resolves, the rows the update has reserved, and only
  they, are set back to \<open>status = available\<close> with \<open>reserved_until\<close> cleared: the seats
  table is afterwards the table the update met, with exactly those rows released (seat ids
  are unique in the table). The answer has status 409 and reports the number of seats lost,
  the requested count minus the updated count; it carries no seat ids.
\<close>

theorem reserve_race_rolls_back_and_reports_count:
  assumes "seatIds b = Some ids" "ids \<noteq> []" "showId b = Some sid" "sid \<noteq> []"
    and "service_role_key env" "store_call env CheckSeats = Resolved"
    and "length (select_seats_of_show ids sid (tbl_seats d)) = length ids"
    and "\<forall>s \<in> set (select_seats_of_show ids sid (tbl_seats d)).
           \<not> is_unavailable (clock_check env) s"
    and "store_call env ReserveUpdate = Resolved"
    and "met = seats_met env ids sid d"
    and "distinct (map seat_id met)"
    and "length (filter (reservable ids sid) met) < length ids"
    and "store_call env Rollback = Resolved"
  shows "POST_reserve env b d =
           (ReserveError 409
              (JustTakenBySomeoneElse
                 (int (length ids) - int (length (filter (reservable ids sid) met)))) None,
            d\<lparr>tbl_seats :=
                 map (\<lambda>s. if seat_id s \<in> set ids \<and> seat_show_id s = sid
                              \<and> seat_status s = Some ''available''
                           then s\<lparr>seat_status := Some ''available'',
                                  seat_reserved_until := None\<rparr>
                           else s) met\<rparr>)"
  using POST_reserve_partial[OF assms] by (simp add: reservable_def released_def)

text \<open>
  At the small theatre: seats a1 and a6 are requested, and a concurrent request takes a6
  between the check and the update. The update reserves a1 only; a1 is released again,
  a6 stays with the other request, and the answer counts one lost seat.
\<close>

theorem reserve_race_rolls_back_and_reports_count_witness:
  "POST_reserve ex_race_env (ex_body [''a1'', ''a6''] 700) ex_db =
     (ReserveError 409 (JustTakenBySomeoneElse 1) None,
      ex_db\<lparr>tbl_seats :=
        [ex_seat ''a1'' ''hamlet'' 1 (Some ''available'') None,
         ex_seat ''a2'' ''hamlet'' 2 (Some ''sold'') None,
         ex_seat ''a3'' ''hamlet'' 3 (Some ''reserved'') (Some 2000000),
         ex_seat ''a4'' ''hamlet'' 4 (Some ''reserved'') (Some 500),
         ex_seat ''a5'' ''hamlet'' 5 None None,
         ex_seat ''a6'' ''hamlet'' 6 (Some ''reserved'') (Some 1500000),
         ex_seat ''b1'' ''othello'' 1 (Some ''available'') None]\<rparr>)"
proof -
  have cur: "select_seats_of_show [''a1'', ''a6''] ''hamlet'' (tbl_seats ex_db) =
      [ex_seat ''a1'' ''hamlet'' 1 (Some ''available'') None,
       ex_seat ''a6'' ''hamlet'' 6 (Some ''available'') None]"
    by (simp add: ex_db_def ex_seats_def ex_seat_def select_seats_of_show_def)
  have len: "length (select_seats_of_show [''a1'', ''a6''] ''hamlet'' (tbl_seats ex_db)) =
             length [''a1'', ''a6'']"
    unfolding cur by simp
  have el: "\<forall>s \<in> set (select_seats_of_show [''a1'', ''a6''] ''hamlet'' (tbl_seats ex_db)).
              \<not> is_unavailable (clock_check ex_race_env) s"
    unfolding cur by (simp add: ex_seat_def ex_race_env_calls classify_defs)
  have met: "seats_met ex_race_env [''a1'', ''a6''] ''hamlet'' ex_db =
      [ex_seat ''a1'' ''hamlet'' 1 (Some ''available'') None,
       ex_seat ''a2'' ''hamlet'' 2 (Some ''sold'') None,
       ex_seat ''a3'' ''hamlet'' 3 (Some ''reserved'') (Some 2000000),
       ex_seat ''a4'' ''hamlet'' 4 (Some ''reserved'') (Some 500),
       ex_seat ''a5'' ''hamlet'' 5 None None,
       ex_seat ''a6'' ''hamlet'' 6 (Some ''reserved'') (Some 1500000),
       ex_seat ''b1'' ''othello'' 1 (Some ''available'') None]"
    unfolding seats_met_def cur
    by (simp add: ex_seat_def ex_race_env_def ex_reserve_env_def classify_defs
        cleanup_expired_def ex_db_def ex_seats_def)
  have dist: "distinct (map seat_id (seats_met ex_race_env [''a1'', ''a6''] ''hamlet'' ex_db))"
    unfolding met by (simp add: ex_seat_def)
  have upd: "filter (reservable [''a1'', ''a6''] ''hamlet'')
               (seats_met ex_race_env [''a1'', ''a6''] ''hamlet'' ex_db) =
      [ex_seat ''a1'' ''hamlet'' 1 (Some ''available'') None]"
    unfolding met by (simp add: reservable_def ex_seat_def)
  have short: "length (filter (reservable [''a1'', ''a6''] ''hamlet'')
                 (seats_met ex_race_env [''a1'', ''a6''] ''hamlet'' ex_db)) < length [''a1'', ''a6'']"
    unfolding upd by simp
  from reserve_race_rolls_back_and_reports_count
         [OF ex_body_fields(1) _ ex_body_fields(2) _ ex_race_env_calls(1,2) len el
             ex_race_env_calls(2) refl dist short ex_race_env_calls(2)]
  show ?thesis unfolding upd unfolding met by (simp add: ex_seat_def)
qed

subsection \<open>A seat without a status\<close>

text \<open>
  Claim C9. Let a reserve request name a seat of the show that has no status (null or
  empty), let seat ids be unique in the table, and let no concurrent request write in
  between. The check classifies the seat as available, but the seat is no row of the
  reserving update, which asks for \<open>status = available\<close>. So the request never
  succeeds, and the seat is never reserved: whatever the store calls do, the answer is an
  error and the seat is in the table as it was. When the request gets as far as the
  reserving update (it passes the validation, finds each requested seat in the show, the
  other requested seats are eligible) and the update and the rollback write resolve, the
  request ends in the partial-update branch: status 409 with a count of at least one lost
  seat, and every row is what it was before the request, or that row released: the
  siblings that the update had reserved are rolled back.
\<close>

theorem reserve_seat_without_status_conflicts:
  assumes "seatIds b = Some ids" "showId b = Some sid"
    and "others env = (\<lambda>tbl. tbl)"
    and "distinct (map seat_id (tbl_seats d))"
    and "s0 \<in> set (select_seats_of_show ids sid (tbl_seats d))"
    and "seat_status s0 = None \<or> seat_status s0 = Some []"
  shows "\<not> is_unavailable (clock_check env) s0
         \<and> \<not> reservable ids sid s0
         \<and> (\<exists>st m u. fst (POST_reserve env b d) = ReserveError st m u)
         \<and> s0 \<in> set (tbl_seats (snd (POST_reserve env b d)))
         \<and> (sid \<noteq> [] \<and> service_role_key env \<and> store_call env CheckSeats = Resolved
              \<and> length (select_seats_of_show ids sid (tbl_seats d)) = length ids
              \<and> (\<forall>s \<in> set (select_seats_of_show ids sid (tbl_seats d)).
                    s \<noteq> s0 \<longrightarrow> \<not> is_unavailable (clock_check env) s)
              \<and> store_call env ReserveUpdate = Resolved
              \<and> store_call env Rollback = Resolved
            \<longrightarrow> (\<exists>failedCount.
                   fst (POST_reserve env b d) =
                     ReserveError 409 (JustTakenBySomeoneElse failedCount) None
                   \<and> 1 \<le> failedCount)
                \<and> list_all2 (\<lambda>s s'. s' = s \<or> s' = released s)
                     (tbl_seats d) (tbl_seats (snd (POST_reserve env b d))))"
proof -
  let ?cur = "select_seats_of_show ids sid (tbl_seats d)"
  let ?E = "map seat_id (filter (is_expired_reserved (clock_check env)) ?cur)"
  let ?U = "filter (is_unavailable (clock_check env)) ?cur"
  let ?d1 = "cleanup_expired env ?E d"
  let ?h = "\<lambda>s. if seat_id s \<in> set ?E then released s else s"
  let ?g = "\<lambda>s. if reservable ids sid s then released s else s"
  let ?until = "clock_start env + hold_window"
  define met where "met = seats_met env ids sid d"
  have s0_class: "\<not> is_unavailable (clock_check env) s0"
    "\<not> is_expired_reserved (clock_check env) s0"
    by (rule null_status_classified[OF assms(6)])+
  have not_res: "\<not> reservable ids sid s0"
    using assms(6) by (auto simp: reservable_def)
  have s0_tbl: "s0 \<in> set (tbl_seats d)"
    and s0_req: "seat_id s0 \<in> set ids" "seat_show_id s0 = sid"
    using assms(5) by (auto simp: select_seats_of_show_def)
  have ids_ne: "ids \<noteq> []" using s0_req(1) by auto
  have s0_notE: "seat_id s0 \<notin> set ?E"
  proof
    assume "seat_id s0 \<in> set ?E"
    then obtain s1 where s1: "s1 \<in> set ?cur" "is_expired_reserved (clock_check env) s1"
      "seat_id s1 = seat_id s0" by auto
    then have "s1 \<in> set (tbl_seats d)" by (auto simp: select_seats_of_show_def)
    with s0_tbl s1(3) assms(4) have "s1 = s0" by (auto simp: distinct_map inj_on_def)
    with s1(2) s0_class(2) show False by simp
  qed
  have met_d1: "met = tbl_seats ?d1"
    by (simp add: met_def seats_met_def assms(3))
  have met_cases: "met = tbl_seats d \<or> met = map ?h (tbl_seats d)"
    by (simp add: met_d1 cleanup_expired_def release_seats_def released_def)
  have met_ids: "map seat_id met = map seat_id (tbl_seats d)"
    using met_cases by (auto simp: released_def)
  have dist: "distinct (map seat_id met)" using met_ids assms(4) by simp
  have s0_met: "s0 \<in> set met"
  proof -
    have "s0 = ?h s0" using s0_notE by simp
    then have "s0 \<in> ?h ` set (tbl_seats d)" using s0_tbl by (rule image_eqI)
    then have "s0 \<in> set (map ?h (tbl_seats d))" by simp
    then show ?thesis using met_cases s0_tbl by (elim disjE) simp_all
  qed
  have s0_upd: "s0 \<in> set (reserve_update ids sid ?until met)"
  proof -
    have "s0 = (\<lambda>s. if reservable ids sid s
              then s\<lparr>seat_status := Some ''reserved'', seat_reserved_until := Some ?until\<rparr>
              else s) s0" using not_res by simp
    then show ?thesis unfolding reserve_update_def set_map using s0_met by (rule image_eqI)
  qed
  have s0_final: "s0 \<in> set (map ?g met)"
  proof -
    have "s0 = ?g s0" using not_res by simp
    then have "s0 \<in> ?g ` set met" using s0_met by (rule image_eqI)
    then show ?thesis by simp
  qed
  have roll: "release_seats (map seat_id (filter (reservable ids sid) met))
                (reserve_update ids sid ?until met) = map ?g met"
    by (rule rollback_is_map[OF dist])
  have short: "length (filter (reservable ids sid) met) < length ids"
    if len: "length ?cur = length ids"
  proof -
    have "filter (\<lambda>s. seat_id s \<in> set ids \<and> seat_show_id s = sid) (map ?h (tbl_seats d)) =
          map ?h (filter (\<lambda>s. seat_id s \<in> set ids \<and> seat_show_id s = sid) (tbl_seats d))"
      unfolding filter_map
      by (rule arg_cong[where f="map ?h"], rule filter_cong[OF refl]) (simp add: released_def)
    then have len_req:
      "length (filter (\<lambda>s. seat_id s \<in> set ids \<and> seat_show_id s = sid) met) = length ids"
      using met_cases len by (auto simp: select_seats_of_show_def)
    have "length (filter (reservable ids sid) met)
          < length (filter (\<lambda>s. seat_id s \<in> set ids \<and> seat_show_id s = sid) met)"
      by (rule length_filter_strict[where x=s0])
         (use s0_met s0_req not_res in \<open>auto simp: reservable_def\<close>)
    then show ?thesis using len_req by simp
  qed
  have always: "(\<exists>st m u. fst (POST_reserve env b d) = ReserveError st m u)
                \<and> s0 \<in> set (tbl_seats (snd (POST_reserve env b d)))"
  proof (cases "sid \<noteq> [] \<and> service_role_key env \<and> store_call env CheckSeats = Resolved
                \<and> length ?cur = length ids")
    case False
    then have "\<exists>st m. POST_reserve env b d = (ReserveError st m None, d)"
      using assms(1,2) ids_ne
      by (auto simp: POST_reserve_def Let_def truthy_def split: call_result.splits)
    then show ?thesis using s0_tbl by auto
  next
    case True
    then have reach: "sid \<noteq> []" "service_role_key env" "store_call env CheckSeats = Resolved"
      "length ?cur = length ids" by simp_all
    note P = POST_reserve_checked[OF assms(1) ids_ne assms(2) reach, unfolded Let_def, folded met_def]
    show ?thesis
    proof (cases "?U = []")
      case False
      then show ?thesis using P s0_met met_d1 by simp
    next
      case True
      let ?d3 = "d\<lparr>tbl_seats := reserve_update ids sid ?until met\<rparr>"
      let ?rids = "map seat_id (filter (reservable ids sid) met)"
      from True P have P': "POST_reserve env b d = reserve_checked env ids sid (d\<lparr>tbl_seats := met\<rparr>)"
        by simp
      show ?thesis
      proof (cases "store_call env ReserveUpdate")
        case Resolved
        then have "POST_reserve env b d = rollback_partial env ids ?rids ?d3"
          unfolding P' using short[OF reach(4)] by (simp add: reserve_checked_def Let_def)
        then show ?thesis
          using rollback_partial_cases[of env ids ?rids ?d3] s0_upd s0_final roll by auto
      next
        case (ReturnedError m)
        then show ?thesis unfolding P' using s0_met by (simp add: reserve_checked_def)
      next
        case Threw
        then show ?thesis unfolding P' using s0_met by (simp add: reserve_checked_def)
      qed
    qed
  qed
  have reached: "(\<exists>failedCount.
                   fst (POST_reserve env b d) =
                     ReserveError 409 (JustTakenBySomeoneElse failedCount) None
                   \<and> 1 \<le> failedCount)
                \<and> list_all2 (\<lambda>s s'. s' = s \<or> s' = released s)
                     (tbl_seats d) (tbl_seats (snd (POST_reserve env b d)))"
    if r: "sid \<noteq> [] \<and> service_role_key env \<and> store_call env CheckSeats = Resolved
              \<and> length ?cur = length ids
              \<and> (\<forall>s \<in> set ?cur. s \<noteq> s0 \<longrightarrow> \<not> is_unavailable (clock_check env) s)
              \<and> store_call env ReserveUpdate = Resolved
              \<and> store_call env Rollback = Resolved"
  proof -
    have eligible: "\<forall>s \<in> set ?cur. \<not> is_unavailable (clock_check env) s"
    proof (intro ballI)
      fix s assume "s \<in> set ?cur"
      then show "\<not> is_unavailable (clock_check env) s"
        using r s0_class(1) by (cases "s = s0") simp_all
    qed
    have P: "POST_reserve env b d =
           (ReserveError 409
              (JustTakenBySomeoneElse
                 (int (length ids) - int (length (filter (reservable ids sid) met)))) None,
            d\<lparr>tbl_seats := map ?g met\<rparr>)"
      using r by (intro POST_reserve_partial[OF assms(1) ids_ne assms(2) _ _ _ _ eligible _ met_def dist short]) simp_all
    have rel: "list_all2 (\<lambda>s s'. s' = s \<or> s' = released s) (tbl_seats d) (map ?g met)"
      using met_cases
      by (auto simp: list_all2_map2 list_all2_same released_def reservable_def)
    show ?thesis using P short r rel by auto
  qed
  show ?thesis using s0_class(1) not_res always reached by blast
qed

text \<open>
  At the small theatre: seats a1 (available) and a5 (no status) are requested. The answer
  is 409 with one lost seat; a5 is not reserved and a1 is available again.
\<close>

theorem reserve_seat_without_status_conflicts_witness:
  "POST_reserve ex_reserve_env (ex_body [''a1'', ''a5''] 700) ex_db =
     (ReserveError 409 (JustTakenBySomeoneElse 1) None, ex_db)
   \<and> ex_seat ''a5'' ''hamlet'' 5 None None \<in> set (tbl_seats ex_db)"
proof -
  let ?b = "ex_body [''a1'', ''a5''] 700"
  have cur: "select_seats_of_show [''a1'', ''a5''] ''hamlet'' (tbl_seats ex_db) =
      [ex_seat ''a1'' ''hamlet'' 1 (Some ''available'') None,
       ex_seat ''a5'' ''hamlet'' 5 None None]"
    by (simp add: ex_db_def ex_seats_def ex_seat_def select_seats_of_show_def)
  have s0: "ex_seat ''a5'' ''hamlet'' 5 None None
              \<in> set (select_seats_of_show [''a1'', ''a5''] ''hamlet'' (tbl_seats ex_db))"
    unfolding cur by simp
  have null: "seat_status (ex_seat ''a5'' ''hamlet'' 5 None None) = None
              \<or> seat_status (ex_seat ''a5'' ''hamlet'' 5 None None) = Some []"
    by (simp add: ex_seat_def)
  have reach: "''hamlet'' \<noteq> [] \<and> service_role_key ex_reserve_env
      \<and> store_call ex_reserve_env CheckSeats = Resolved
      \<and> length (select_seats_of_show [''a1'', ''a5''] ''hamlet'' (tbl_seats ex_db)) =
          length [''a1'', ''a5'']
      \<and> (\<forall>s \<in> set (select_seats_of_show [''a1'', ''a5''] ''hamlet'' (tbl_seats ex_db)).
            s \<noteq> ex_seat ''a5'' ''hamlet'' 5 None None
            \<longrightarrow> \<not> is_unavailable (clock_check ex_reserve_env) s)
      \<and> store_call ex_reserve_env ReserveUpdate = Resolved
      \<and> store_call ex_reserve_env Rollback = Resolved"
    unfolding cur by (simp add: ex_seat_def ex_reserve_env_calls classify_defs)
  from reserve_seat_without_status_conflicts
         [where b = ?b and env = ex_reserve_env,
          OF ex_body_fields(1) ex_body_fields(2) ex_reserve_env_calls(3) ex_distinct_ids s0 null]
       reach
  obtain failedCount where
    "fst (POST_reserve ex_reserve_env ?b ex_db) =
       ReserveError 409 (JustTakenBySomeoneElse failedCount) None"
    by blast
  moreover have "POST_reserve ex_reserve_env ?b ex_db =
     (ReserveError 409 (JustTakenBySomeoneElse 1) None, ex_db)"
    by (simp add: POST_reserve_def ex_body_fields ex_reserve_env_calls truthy_def cur[simplified]
        classify_defs ex_seat_def cleanup_expired_def reserve_checked_def rollback_partial_def
        ex_db_def ex_seats_def reservable_def reserve_update_def release_seats_def Let_def
        select_seats_of_show_def)
  ultimately show ?thesis using s0 by (simp add: select_seats_of_show_def)
qed

subsection \<open>Holds that have run out\<close>

text \<open>
  Claim C5. A requested seat whose status is reserved and whose hold has run out is
  classified as available, and its id goes to the cleanup write, which the handler wraps
  in its own \<open>try\<close>. The claim adds that a failure of the cleanup write does not fail the
  request. It does: the reserving update asks for \<open>status = available\<close>, and a seat that
  the failed cleanup has left as reserved is not among its rows, so the request ends with
  status 409 in the partial-update branch. At the small theatre, seat a4 (its hold ran out
  long ago) is requested alone: with a store whose cleanup write returns an error the
  answer is 409 with one lost seat and a4 keeps its dead hold, while with a store whose
  writes all resolve the same request reserves a4.
\<close>

theorem reserve_failed_cleanup_fails_request:
  "POST_reserve ex_failing_cleanup_env (ex_body [''a4''] 350) ex_db =
     (ReserveError 409 (JustTakenBySomeoneElse 1) None, ex_db)
   \<and> fst (POST_reserve ex_reserve_env (ex_body [''a4''] 350) ex_db) =
       ReserveOk 1600000 [''a4'']"
proof -
  have cur: "select_seats_of_show [''a4''] ''hamlet'' ex_seats =
      [ex_seat ''a4'' ''hamlet'' 4 (Some ''reserved'') (Some 500)]"
    by (simp add: ex_seats_def ex_seat_def select_seats_of_show_def)
  have 1: "POST_reserve ex_failing_cleanup_env (ex_body [''a4''] 350) ex_db =
     (ReserveError 409 (JustTakenBySomeoneElse 1) None, ex_db)"
    by (simp add: POST_reserve_def ex_body_fields ex_failing_cleanup_env_def ex_reserve_env_def
        truthy_def ex_db_def cur)
       (simp add: classify_defs ex_seat_def cleanup_expired_def reserve_checked_def
        rollback_partial_def ex_seats_def reservable_def reserve_update_def Let_def)
  have 2: "fst (POST_reserve ex_reserve_env (ex_body [''a4''] 350) ex_db) =
       ReserveOk 1600000 [''a4'']"
    by (simp add: POST_reserve_def ex_body_fields ex_reserve_env_def truthy_def ex_db_def cur)
       (simp add: classify_defs ex_seat_def cleanup_expired_def reserve_checked_def
        rollback_partial_def ex_seats_def reservable_def reserve_update_def release_seats_def
        hold_window_def Let_def)
  from 1 2 show ?thesis by simp
qed

section \<open>Properties of the booking handler\<close>

subsection \<open>Writes\<close>

lemma unguarded_write_cases:
  "unguarded_write r w d = Some d' \<Longrightarrow> d' = d \<or> d' = w d"
  by (auto simp: unguarded_write_def split: call_result.splits)

lemma apply_discount_tables:
  assumes "apply_discount env b d = Some d1"
  shows "tbl_seats d1 = tbl_seats d" "tbl_bookings d1 = tbl_bookings d" "tbl_shows d1 = tbl_shows d"
  using assms
  by (auto simp: apply_discount_def increment_uses_def unguarded_write_def
      split: if_splits call_result.splits option.splits)

lemma commit_sale_Inr:
  assumes "commit_sale env b f d = Inr d'"
  shows "map core (tbl_bookings d') = map core (tbl_bookings d)"
    and "map booking_ticket_sent (tbl_bookings d') = map booking_ticket_sent (tbl_bookings d)"
    and "tbl_seats d' = (if booking_call env SellSeats = Resolved
                         then sell_seats (f_ids f) (tbl_seats d) else tbl_seats d)"
  using assms
  by (auto simp: commit_sale_def Let_def unguarded_write_def guarded_write_def update_booking_def
      decrement_available_def core_def
      split: if_splits call_result.splits option.splits)

lemma commit_sale_Inl:
  assumes "commit_sale env b f d = Inl d'"
  shows "map core (tbl_bookings d') = map core (tbl_bookings d)"
  using assms
  by (auto simp: commit_sale_def Let_def unguarded_write_def guarded_write_def update_booking_def
      decrement_available_def core_def
      split: if_splits call_result.splits option.splits)

lemma send_ticket_store:
  "map core (tbl_bookings (snd (send_ticket env bid d))) = map core (tbl_bookings d)"
  "tbl_seats (snd (send_ticket env bid d)) = tbl_seats d"
  by (auto simp: send_ticket_def unguarded_write_def update_booking_def core_def
      split: prod.splits call_result.splits option.splits)

lemma sell_seats_sold:
  "\<forall>s \<in> set (sell_seats ids tbl). seat_id s \<in> set ids \<longrightarrow> seat_status s = Some ''sold''"
  by (auto simp: sell_seats_def)

subsection \<open>Checks\<close>

lemma fetch_requested_Inr:
  assumes "fetch_requested env b d = Inr f"
  shows "valid_booking_body b" "f_ids f = the (seatIds b)" "f_show_id f = the (showId b)"
    "f_seats f = select_seats (f_ids f) (tbl_seats d)" "length (f_seats f) = length (f_ids f)"
  using assms
  by (auto simp: fetch_requested_def Let_def
      split: if_splits call_result.splits option.splits)

lemma booking_checks_Inr:
  assumes "booking_checks env b d = Inr f"
  shows "fetch_requested env b d = Inr f" "status_check (f_seats f) = None"
  using assms
  by (auto simp: booking_checks_def split: sum.splits option.splits)

lemma booking_checks_Inl:
  assumes "booking_checks env b d = Inl r"
  shows "is_rejection r"
  using assms
  by (auto simp: booking_checks_def fetch_requested_def Let_def is_rejection_def
      split: sum.splits option.splits if_splits call_result.splits)

lemma status_check_None:
  "status_check sts = None \<longleftrightarrow>
     (\<forall>s \<in> set sts. seat_status s = Some ''reserved'' \<or> seat_status s = Some ''available'')"
  by (auto simp: status_check_def Let_def filter_empty_conv)

lemma status_check_sold_blocked:
  assumes "\<exists>s \<in> set sts. seat_status s = Some ''sold'' \<or> seat_status s = Some ''blocked''"
  shows "status_check sts =
     Some (if 0 < length (filter (\<lambda>s. seat_status s = Some ''blocked'') sts)
           then SeatsBlocked (length (filter (\<lambda>s. seat_status s = Some ''blocked'') sts))
           else SeatsAlreadySold (length (filter (\<lambda>s. seat_status s = Some ''sold'') sts)))"
proof -
  let ?Q = "\<lambda>s. seat_status s \<noteq> Some ''reserved'' \<and> seat_status s \<noteq> Some ''available''"
  from assms obtain s0 where s0: "s0 \<in> set sts"
    "seat_status s0 = Some ''sold'' \<or> seat_status s0 = Some ''blocked''" by blast
  then have "?Q s0" by auto
  with s0(1) have "s0 \<in> set (filter ?Q sts)" by simp
  then have ne: "filter ?Q sts \<noteq> []" by (metis empty_iff empty_set)
  have sold: "filter (\<lambda>s. seat_status s = Some ''sold'') (filter ?Q sts) =
              filter (\<lambda>s. seat_status s = Some ''sold'') sts"
    unfolding filter_filter by (rule filter_cong) auto
  have blocked: "filter (\<lambda>s. seat_status s = Some ''blocked'') (filter ?Q sts) =
                 filter (\<lambda>s. seat_status s = Some ''blocked'') sts"
    unfolding filter_filter by (rule filter_cong) auto
  have some: "filter (\<lambda>s. seat_status s = Some ''blocked'') sts = [] \<Longrightarrow>
              filter (\<lambda>s. seat_status s = Some ''sold'') sts \<noteq> []"
    using assms by (auto simp: filter_empty_conv)
  show ?thesis
    unfolding status_check_def Let_def sold blocked using ne some by auto
qed

lemma select_seats_conj: "select_seats ids tbl = filter (\<lambda>s. seat_id s \<in> set ids \<and> True) tbl"
  by (simp add: select_seats_def)

subsection \<open>Before and after the insert\<close>

lemma POST_not_inserted:
  assumes "\<not> booking_inserted env b d"
  shows "is_rejection (fst (POST_bookings env b d))"
    and "tbl_seats (snd (POST_bookings env b d)) = tbl_seats d"
    and "tbl_bookings (snd (POST_bookings env b d)) = tbl_bookings d"
  using assms
  by (auto simp: POST_bookings_def until_email_def booking_inserted_def is_rejection_def
      dest: booking_checks_Inl apply_discount_tables
      split: sum.splits option.splits call_result.splits)

lemma until_email_inserted:
  assumes "booking_inserted env b d"
  obtains f d1 where "booking_checks env b d = Inr f" "apply_discount env b d = Some d1"
    "until_email env b d =
       (case commit_sale env b f (d1\<lparr>tbl_bookings := tbl_bookings d1 @ [new_booking env b f]\<rparr>) of
          Inl d2 \<Rightarrow> Inl (BookingError 500 InternalServerError, d2)
        | Inr d2 \<Rightarrow> Inr d2)"
  using assms
  by (auto simp: booking_inserted_def until_email_def split: sum.splits option.splits)

lemma new_booking_core:
  assumes "fetch_requested env b d = Inr f"
  shows "core (new_booking env b f) =
     (inserted_id env, the (showId b), the (seatIds b), the (totalAmount b), ''confirmed'')"
  using fetch_requested_Inr(2,3)[OF assms] by (simp add: core_def new_booking_def)

lemma POST_inserted_core:
  assumes "booking_inserted env b d"
  shows "map core (tbl_bookings (snd (POST_bookings env b d))) =
         map core (tbl_bookings d) @
           [(inserted_id env, the (showId b), the (seatIds b), the (totalAmount b), ''confirmed'')]"
proof -
  from assms obtain f d1 where f: "booking_checks env b d = Inr f"
    and d1: "apply_discount env b d = Some d1"
    and ue: "until_email env b d =
       (case commit_sale env b f (d1\<lparr>tbl_bookings := tbl_bookings d1 @ [new_booking env b f]\<rparr>) of
          Inl d2 \<Rightarrow> Inl (BookingError 500 InternalServerError, d2)
        | Inr d2 \<Rightarrow> Inr d2)"
    by (rule until_email_inserted)
  let ?d0 = "d1\<lparr>tbl_bookings := tbl_bookings d1 @ [new_booking env b f]\<rparr>"
  have start: "map core (tbl_bookings ?d0) =
      map core (tbl_bookings d) @
        [(inserted_id env, the (showId b), the (seatIds b), the (totalAmount b), ''confirmed'')]"
    using apply_discount_tables(2)[OF d1] new_booking_core[OF booking_checks_Inr(1)[OF f]]
    by simp
  show ?thesis
  proof (cases "commit_sale env b f ?d0")
    case (Inl d2)
    then show ?thesis
      using ue commit_sale_Inl[OF Inl] start by (simp add: POST_bookings_def)
  next
    case (Inr d2)
    then show ?thesis
      using ue commit_sale_Inr(1)[OF Inr] start send_ticket_store(1)[of env "inserted_id env" d2]
      by (simp add: POST_bookings_def)
  qed
qed

lemma total_of_core:
  "map booking_total_amount_nok bks = map (\<lambda>(i, sh, ids, a, st). a) (map core bks)"
  by (simp add: core_def)

lemma until_email_Inr:
  assumes "until_email env b d = Inr d1"
  shows "map core (tbl_bookings d1) =
           map core (tbl_bookings d) @
             [(inserted_id env, the (showId b), the (seatIds b), the (totalAmount b),
               ''confirmed'')]"
    and "map booking_ticket_sent (tbl_bookings d1) =
           map booking_ticket_sent (tbl_bookings d) @ [False]"
    and "tbl_seats d1 = (if booking_call env SellSeats = Resolved
                         then sell_seats (the (seatIds b)) (tbl_seats d) else tbl_seats d)"
proof -
  from assms obtain f d0 where f: "booking_checks env b d = Inr f"
    and d0: "apply_discount env b d = Some d0"
    and cs: "commit_sale env b f (d0\<lparr>tbl_bookings := tbl_bookings d0 @ [new_booking env b f]\<rparr>)
               = Inr d1"
    by (auto simp: until_email_def split: sum.splits option.splits call_result.splits)
  note fr = fetch_requested_Inr[OF booking_checks_Inr(1)[OF f]]
  note t = apply_discount_tables[OF d0]
  show "map core (tbl_bookings d1) =
           map core (tbl_bookings d) @
             [(inserted_id env, the (showId b), the (seatIds b), the (totalAmount b),
               ''confirmed'')]"
    using commit_sale_Inr(1)[OF cs] t(2) new_booking_core[OF booking_checks_Inr(1)[OF f]]
    by simp
  show "map booking_ticket_sent (tbl_bookings d1) =
           map booking_ticket_sent (tbl_bookings d) @ [False]"
    using commit_sale_Inr(2)[OF cs] t(2) by (simp add: new_booking_def)
  show "tbl_seats d1 = (if booking_call env SellSeats = Resolved
                         then sell_seats (the (seatIds b)) (tbl_seats d) else tbl_seats d)"
    using commit_sale_Inr(3)[OF cs] t(1) fr(2) by simp
qed

subsection \<open>Other prices\<close>

lemma select_seats_reprice:
  "select_seats ids (tbl_seats (reprice q d)) =
     map (\<lambda>s. s\<lparr>seat_price_nok := q (seat_id s)\<rparr>) (select_seats ids (tbl_seats d))"
  by (simp add: select_seats_def reprice_def filter_map comp_def)

lemma fetch_requested_reprice:
  "fetch_requested env b (reprice q d) =
     (case fetch_requested env b d of Inl r \<Rightarrow> Inl r | Inr f \<Rightarrow> Inr (reprice_fetched q f))"
  by (simp add: fetch_requested_def select_seats_reprice Let_def reprice_fetched_def
      split: call_result.splits option.splits)
     (simp add: reprice_def)

lemma status_check_reprice:
  "status_check (map (\<lambda>s. s\<lparr>seat_price_nok := q (seat_id s)\<rparr>) sts) = status_check sts"
  by (simp add: status_check_def filter_map comp_def Let_def)

lemma booking_checks_reprice:
  "booking_checks env b (reprice q d) =
     (case booking_checks env b d of Inl r \<Rightarrow> Inl r | Inr f \<Rightarrow> Inr (reprice_fetched q f))"
  by (simp add: booking_checks_def fetch_requested_reprice status_check_reprice reprice_fetched_def
      split: sum.splits option.splits)

lemma apply_discount_reprice:
  "apply_discount env b (reprice q d) = map_option (reprice q) (apply_discount env b d)"
  by (simp add: apply_discount_def unguarded_write_def increment_uses_def reprice_def
      split: call_result.splits option.splits)

lemma new_booking_reprice: "new_booking env b (reprice_fetched q f) = new_booking env b f"
  by (simp add: new_booking_def qrData_def reprice_fetched_def comp_def)

lemma commit_sale_reprice:
  "commit_sale env b (reprice_fetched q f) (reprice q d) =
     map_sum (reprice q) (reprice q) (commit_sale env b f d)"
  by (simp add: commit_sale_def Let_def unguarded_write_def guarded_write_def update_booking_def
      decrement_available_def sell_seats_def reprice_def reprice_fetched_def qrData_def comp_def
      split: call_result.splits)

lemma send_ticket_reprice:
  "send_ticket env bid (reprice q d) =
     (fst (send_ticket env bid d), reprice q (snd (send_ticket env bid d)))"
  by (simp add: send_ticket_def unguarded_write_def update_booking_def reprice_def
      split: prod.splits call_result.splits)

lemma reprice_append_booking:
  "(reprice q d)\<lparr>tbl_bookings := tbl_bookings (reprice q d) @ [bk]\<rparr> =
     reprice q (d\<lparr>tbl_bookings := tbl_bookings d @ [bk]\<rparr>)"
  by (simp add: reprice_def)

lemma until_email_reprice:
  "until_email env b (reprice q d) =
     map_sum (\<lambda>(r, d'). (r, reprice q d')) (reprice q) (until_email env b d)"
  by (simp add: until_email_def booking_checks_reprice apply_discount_reprice new_booking_reprice
      commit_sale_reprice reprice_append_booking
      split: sum.splits option.splits call_result.splits)

lemma POST_bookings_reprice:
  "POST_bookings env b (reprice q d) =
     (fst (POST_bookings env b d), reprice q (snd (POST_bookings env b d)))"
  by (simp add: POST_bookings_def until_email_reprice send_ticket_reprice split: sum.splits)

subsection \<open>The small theatre, evaluated\<close>

lemmas booking_defs =
  POST_bookings_def until_email_def booking_checks_def fetch_requested_def status_check_def
  valid_booking_body_def truthy_def single_def select_seats_def apply_discount_def
  commit_sale_def send_ticket_def emailResult_def unguarded_write_def guarded_write_def
  update_booking_def new_booking_def qrData_def createQRCodeData_def showTitle_def
  sell_seats_def decrement_available_def or_null_def Let_def

lemmas ex_booking_defs =
  ex_booking_env_def ex_body_def ex_db_def ex_seats_def ex_seat_def ex_hamlet_def ex_othello_def

lemma ex_inserted: "booking_inserted ex_booking_env (ex_body [''a1'', ''a6''] 1) ex_db"
  by (simp add: booking_inserted_def booking_defs ex_booking_defs)


subsection \<open>The total amount\<close>

text \<open>
  Claim C1 says that the booking handler recomputes the total from the prices of the
  requested seats, rejects a request whose \<open>totalAmount\<close> differs from that sum, and never
  persists a booking with another total. The handler has no such check. At the small
  theatre every seat costs 350: a request for seats a1 and a6 with \<open>totalAmount = 1\<close> is
  answered with success, and the booking is persisted with a total of 1, while the prices
  of the two seats add up to 700.
\<close>

theorem booking_total_not_verified_counterexample:
  "fst (POST_bookings ex_booking_env (ex_body [''a1'', ''a6''] 1) ex_db) =
     BookingOk ''bk-1'' ''TK-20260301-X4Q9'' True None
   \<and> map booking_total_amount_nok
        (tbl_bookings (snd (POST_bookings ex_booking_env (ex_body [''a1'', ''a6''] 1) ex_db))) = [1]
   \<and> sum_list (map seat_price_nok (select_seats [''a1'', ''a6''] (tbl_seats ex_db))) = 700"
  by (simp add: booking_defs ex_booking_defs)

text \<open>
  Claim C1 as amended: of \<open>totalAmount\<close> the booking handler checks only that it is a
  number greater than 0; a request without one is rejected with the status 400 of the
  validation and changes nothing. The handler does not compare \<open>totalAmount\<close> with the
  prices of the seats: whenever it inserts a booking, the totals in the bookings table are
  afterwards the totals that were there and, for the new row, the \<open>totalAmount\<close> of the
  request as the client sent it; whenever it inserts none, the bookings table is unchanged.
  With any other prices in the seats table, the same request gets the same answer and
  leaves the same bookings table.
\<close>

theorem booking_persists_client_total:
  "(totalAmount b = None \<or> the (totalAmount b) \<le> 0 \<longrightarrow>
      POST_bookings env b d = (BookingError 400 MissingRequiredFields, d))
   \<and> (booking_inserted env b d \<longrightarrow>
        totalAmount b \<noteq> None \<and> 0 < the (totalAmount b)
        \<and> map booking_total_amount_nok (tbl_bookings (snd (POST_bookings env b d))) =
            map booking_total_amount_nok (tbl_bookings d) @ [the (totalAmount b)])
   \<and> (\<not> booking_inserted env b d \<longrightarrow>
        tbl_bookings (snd (POST_bookings env b d)) = tbl_bookings d)
   \<and> fst (POST_bookings env b (reprice q d)) = fst (POST_bookings env b d)
   \<and> tbl_bookings (snd (POST_bookings env b (reprice q d))) =
       tbl_bookings (snd (POST_bookings env b d))"
proof (intro conjI impI)
  assume "totalAmount b = None \<or> the (totalAmount b) \<le> 0"
  then have "\<not> valid_booking_body b" by (auto simp: valid_booking_body_def)
  then show "POST_bookings env b d = (BookingError 400 MissingRequiredFields, d)"
    by (simp add: POST_bookings_def until_email_def booking_checks_def fetch_requested_def)
next
  assume ins: "booking_inserted env b d"
  then obtain f where "booking_checks env b d = Inr f"
    by (auto simp: booking_inserted_def split: sum.splits)
  then have "valid_booking_body b"
    by (intro fetch_requested_Inr(1)[of env b d f] booking_checks_Inr(1))
  then show "totalAmount b \<noteq> None" "0 < the (totalAmount b)"
    by (auto simp: valid_booking_body_def)
  show "map booking_total_amount_nok (tbl_bookings (snd (POST_bookings env b d))) =
            map booking_total_amount_nok (tbl_bookings d) @ [the (totalAmount b)]"
    unfolding total_of_core POST_inserted_core[OF ins] by simp
next
  assume "\<not> booking_inserted env b d"
  then show "tbl_bookings (snd (POST_bookings env b d)) = tbl_bookings d"
    by (rule POST_not_inserted(3))
next
  show "fst (POST_bookings env b (reprice q d)) = fst (POST_bookings env b d)"
    by (simp add: POST_bookings_reprice)
  show "tbl_bookings (snd (POST_bookings env b (reprice q d))) =
          tbl_bookings (snd (POST_bookings env b d))"
    unfolding POST_bookings_reprice by (simp add: reprice_def)
qed

text \<open>
  At the small theatre: the request with \<open>totalAmount = 1\<close> is inserted with a total of 1,
  and the same request with \<open>totalAmount = 0\<close> is rejected by the validation.
\<close>

theorem booking_persists_client_total_witness:
  "map booking_total_amount_nok
     (tbl_bookings (snd (POST_bookings ex_booking_env (ex_body [''a1'', ''a6''] 1) ex_db))) = [1]
   \<and> POST_bookings ex_booking_env (ex_body [''a1'', ''a6''] 0) ex_db =
       (BookingError 400 MissingRequiredFields, ex_db)"
  using booking_persists_client_total
          [of "ex_body [''a1'', ''a6''] 1" ex_booking_env ex_db, THEN conjunct2, THEN conjunct1]
        booking_persists_client_total
          [of "ex_body [''a1'', ''a6''] 0" ex_booking_env ex_db, THEN conjunct1]
        ex_inserted
  by (simp add: ex_body_fields) (simp add: ex_db_def)

subsection \<open>Rejections change nothing\<close>

text \<open>
  Claim C3. Booking confirmation is all-or-nothing with respect to invalid seats.
  \<^item> A request that does not get a booking row inserted (any failure before the insert,
    and a failing insert) is answered with an error, and the seats table and the bookings
    table are afterwards as they were.
  \<^item> A request that names a seat whose status is sold or blocked never gets a booking
    row inserted.
  \<^item> A request that names a seat id that is not in the seats table (seat ids are unique
    in the table) never gets a booking row inserted.
  \<^item> When the request gets as far as the check of the seat statuses and one of the
    fetched seats is sold or blocked, the answer has status 400 and its message tells
    the two cases apart: it carries the number of blocked seats when there is a blocked
    one, and the number of sold seats otherwise; the store is unchanged.
\<close>

theorem booking_rejection_changes_no_seat_and_no_booking:
  "(\<not> booking_inserted env b d \<longrightarrow>
      is_rejection (fst (POST_bookings env b d))
      \<and> tbl_seats (snd (POST_bookings env b d)) = tbl_seats d
      \<and> tbl_bookings (snd (POST_bookings env b d)) = tbl_bookings d)
   \<and> (seatIds b = Some ids
       \<and> (\<exists>s \<in> set (tbl_seats d). seat_id s \<in> set ids
             \<and> (seat_status s = Some ''sold'' \<or> seat_status s = Some ''blocked''))
       \<longrightarrow> \<not> booking_inserted env b d)
   \<and> (seatIds b = Some ids \<and> distinct (map seat_id (tbl_seats d))
       \<and> (\<exists>i \<in> set ids. i \<notin> seat_id ` set (tbl_seats d))
       \<longrightarrow> \<not> booking_inserted env b d)
   \<and> (fetch_requested env b d = Inr f
       \<and> (\<exists>s \<in> set (f_seats f). seat_status s = Some ''sold'' \<or> seat_status s = Some ''blocked'')
       \<longrightarrow> POST_bookings env b d =
             (BookingError 400
                (if 0 < length (filter (\<lambda>s. seat_status s = Some ''blocked'') (f_seats f))
                 then SeatsBlocked
                        (length (filter (\<lambda>s. seat_status s = Some ''blocked'') (f_seats f)))
                 else SeatsAlreadySold
                        (length (filter (\<lambda>s. seat_status s = Some ''sold'') (f_seats f)))), d))"
proof (intro conjI impI)
  assume "\<not> booking_inserted env b d"
  then show "is_rejection (fst (POST_bookings env b d))"
    and "tbl_seats (snd (POST_bookings env b d)) = tbl_seats d"
    and "tbl_bookings (snd (POST_bookings env b d)) = tbl_bookings d"
    by (rule POST_not_inserted)+
next
  assume a: "seatIds b = Some ids
       \<and> (\<exists>s \<in> set (tbl_seats d). seat_id s \<in> set ids
             \<and> (seat_status s = Some ''sold'' \<or> seat_status s = Some ''blocked''))"
  show "\<not> booking_inserted env b d"
  proof
    assume "booking_inserted env b d"
    then obtain f' where f': "booking_checks env b d = Inr f'"
      by (auto simp: booking_inserted_def split: sum.splits)
    note fr = fetch_requested_Inr[OF booking_checks_Inr(1)[OF f']]
    from a obtain s where s: "s \<in> set (tbl_seats d)" "seat_id s \<in> set ids"
      "seat_status s = Some ''sold'' \<or> seat_status s = Some ''blocked''" by blast
    have "s \<in> set (f_seats f')" using s a fr(2,4) by (simp add: select_seats_def)
    with booking_checks_Inr(2)[OF f'] s(3) show False
      by (auto simp: status_check_None)
  qed
next
  assume a: "seatIds b = Some ids \<and> distinct (map seat_id (tbl_seats d))
       \<and> (\<exists>i \<in> set ids. i \<notin> seat_id ` set (tbl_seats d))"
  show "\<not> booking_inserted env b d"
  proof
    assume "booking_inserted env b d"
    then obtain f' where f': "booking_checks env b d = Inr f'"
      by (auto simp: booking_inserted_def split: sum.splits)
    note fr = fetch_requested_Inr[OF booking_checks_Inr(1)[OF f']]
    from a obtain i where i: "i \<in> set ids" "i \<notin> seat_id ` set (tbl_seats d)" by blast
    have "length (select_seats ids (tbl_seats d)) < length ids"
      unfolding select_seats_conj using a i by (intro missing_id_fetch_short) simp_all
    with fr(2,4,5) a show False by simp
  qed
next
  assume a: "fetch_requested env b d = Inr f
       \<and> (\<exists>s \<in> set (f_seats f). seat_status s = Some ''sold'' \<or> seat_status s = Some ''blocked'')"
  then show "POST_bookings env b d =
             (BookingError 400
                (if 0 < length (filter (\<lambda>s. seat_status s = Some ''blocked'') (f_seats f))
                 then SeatsBlocked
                        (length (filter (\<lambda>s. seat_status s = Some ''blocked'') (f_seats f)))
                 else SeatsAlreadySold
                        (length (filter (\<lambda>s. seat_status s = Some ''sold'') (f_seats f)))), d)"
    using status_check_sold_blocked[of "f_seats f"]
    by (simp add: POST_bookings_def until_email_def booking_checks_def)
qed

text \<open>
  At the small theatre: a request for a1 and a2 (sold) is answered with 400 and one sold
  seat, and nothing changes; a request for a1 and the unknown seat zz is rejected too.
\<close>

theorem booking_rejection_changes_no_seat_and_no_booking_witness:
  "POST_bookings ex_booking_env (ex_body [''a1'', ''a2''] 700) ex_db =
     (BookingError 400 (SeatsAlreadySold 1), ex_db)
   \<and> \<not> booking_inserted ex_booking_env (ex_body [''a1'', ''a2''] 700) ex_db
   \<and> \<not> booking_inserted ex_booking_env (ex_body [''a1'', ''zz''] 700) ex_db
   \<and> is_rejection (fst (POST_bookings ex_booking_env (ex_body [''a1'', ''zz''] 700) ex_db))
   \<and> tbl_seats (snd (POST_bookings ex_booking_env (ex_body [''a1'', ''zz''] 700) ex_db)) = ex_seats"
proof -
  let ?f = "\<lparr>f_ids = [''a1'', ''a2''], f_show_id = ''hamlet'', f_user = ''user-7'',
             f_show = ex_hamlet,
             f_seats = [ex_seat ''a1'' ''hamlet'' 1 (Some ''available'') None,
                        ex_seat ''a2'' ''hamlet'' 2 (Some ''sold'') None]\<rparr>"
  have fr: "fetch_requested ex_booking_env (ex_body [''a1'', ''a2''] 700) ex_db = Inr ?f"
    by (simp add: booking_defs ex_booking_defs)
  have sold: "\<exists>s \<in> set (f_seats ?f).
                seat_status s = Some ''sold'' \<or> seat_status s = Some ''blocked''"
    by (simp add: ex_seat_def)
  have in_store: "\<exists>s \<in> set (tbl_seats ex_db). seat_id s \<in> set [''a1'', ''a2'']
             \<and> (seat_status s = Some ''sold'' \<or> seat_status s = Some ''blocked'')"
    by (simp add: ex_db_def ex_seats_def ex_seat_def)
  have missing: "\<exists>i \<in> set [''a1'', ''zz'']. i \<notin> seat_id ` set (tbl_seats ex_db)"
    by (simp add: ex_db_def ex_seats_def ex_seat_def)
  note main = booking_rejection_changes_no_seat_and_no_booking
  have 1: "POST_bookings ex_booking_env (ex_body [''a1'', ''a2''] 700) ex_db =
     (BookingError 400 (SeatsAlreadySold 1), ex_db)"
    using main[of ex_booking_env "ex_body [''a1'', ''a2''] 700" ex_db "[]" ?f] fr sold
    by (simp add: ex_seat_def)
  have 2: "\<not> booking_inserted ex_booking_env (ex_body [''a1'', ''a2''] 700) ex_db"
    using main[of ex_booking_env "ex_body [''a1'', ''a2''] 700" ex_db "[''a1'', ''a2'']" ?f]
      in_store ex_body_fields(1) by blast
  have 3: "\<not> booking_inserted ex_booking_env (ex_body [''a1'', ''zz''] 700) ex_db"
    using main[of ex_booking_env "ex_body [''a1'', ''zz''] 700" ex_db "[''a1'', ''zz'']" ?f]
      missing ex_body_fields(1) ex_distinct_ids by blast
  have 4: "is_rejection (fst (POST_bookings ex_booking_env (ex_body [''a1'', ''zz''] 700) ex_db))
     \<and> tbl_seats (snd (POST_bookings ex_booking_env (ex_body [''a1'', ''zz''] 700) ex_db)) = ex_seats"
    using main[of ex_booking_env "ex_body [''a1'', ''zz''] 700" ex_db "[]" ?f] 3
    by (simp add: ex_db_def)
  from 1 2 3 4 show ?thesis by simp
qed

subsection \<open>The show of the booked seats\<close>

text \<open>
  Claim C7 says that the seats of every persisted booking belong to the show of the
  booking. The reserve handler fetches and updates seats with the filter
  \<open>show_id = showId\<close>; the booking handler fetches and sells them by id alone and never
  compares their show with \<open>showId\<close>. At the small theatre a request for the show hamlet
  with the seat b1 of the show othello is answered with success: the booking is persisted
  for hamlet with seat b1, and b1, a seat of othello, is sold.
\<close>

theorem booking_cross_show_seat_accepted:
  "fst (POST_bookings ex_booking_env (ex_body [''b1''] 350) ex_db) =
     BookingOk ''bk-1'' ''TK-20260301-X4Q9'' True None
   \<and> map (\<lambda>bk. (booking_show_id bk, booking_seat_ids bk))
        (tbl_bookings (snd (POST_bookings ex_booking_env (ex_body [''b1''] 350) ex_db))) =
      [(''hamlet'', [''b1''])]
   \<and> map (\<lambda>s. (seat_id s, seat_show_id s, seat_status s))
        (select_seats [''b1'']
           (tbl_seats (snd (POST_bookings ex_booking_env (ex_body [''b1''] 350) ex_db)))) =
      [(''b1'', ''othello'', Some ''sold'')]"
  by (simp add: booking_defs ex_booking_defs)

subsection \<open>The ticket email\<close>

text \<open>
  Claim C8. Let a booking request reach the email step, with the store \<open>d1\<close>, and let the
  write of \<open>ticket_sent\<close> that follows the dispatch not throw. Then, whatever the email
  collaborator does, the answer is a success with the id of the inserted booking and its
  reference; \<open>emailSent\<close> is true exactly when the dispatch has succeeded, and \<open>emailError\<close>
  is the error the collaborator returned, or the message of what it threw. The email step
  changes no seat (with a resolved seat write, every requested seat is sold and stays
  sold) and leaves id, show, seats, amount and status of every booking as they were: the
  booking is not rolled back. When the dispatch has failed, the inserted booking is in the
  table with status confirmed and \<open>ticket_sent = false\<close>.
\<close>

theorem booking_stands_when_email_fails:
  assumes "until_email env b d = Inr d1" "booking_call env SetTicketSent \<noteq> Threw"
  shows "\<exists>d2. POST_bookings env b d =
                 (BookingOk (inserted_id env) (generated_reference env)
                    (email_succeeded (email env))
                    (case email env of
                       EmailReturned ok e \<Rightarrow> e
                     | EmailThrew m \<Rightarrow>
                         Some (case m of Some x \<Rightarrow> x | None \<Rightarrow> ''Ukjent feil i e-postsending'')),
                  d2)
          \<and> tbl_seats d2 = tbl_seats d1
          \<and> (booking_call env SellSeats = Resolved \<longrightarrow>
               (\<forall>s \<in> set (tbl_seats d2).
                  seat_id s \<in> set (the (seatIds b)) \<longrightarrow> seat_status s = Some ''sold''))
          \<and> map core (tbl_bookings d2) = map core (tbl_bookings d1)
          \<and> (\<not> email_succeeded (email env) \<longrightarrow>
               (\<exists>bk \<in> set (tbl_bookings d2).
                  booking_id bk = inserted_id env \<and> booking_status bk = ''confirmed''
                  \<and> \<not> booking_ticket_sent bk))"
proof -
  let ?bid = "inserted_id env"
  let ?ok = "email_succeeded (email env)"
  let ?err = "case email env of
                EmailReturned ok e \<Rightarrow> e
              | EmailThrew m \<Rightarrow>
                  Some (case m of Some x \<Rightarrow> x | None \<Rightarrow> ''Ukjent feil i e-postsending'')"
  let ?w = "update_booking ?bid (\<lambda>bk. bk\<lparr>booking_ticket_sent := ?ok\<rparr>)"
  have er: "emailResult env = (?ok, ?err)"
    by (simp add: emailResult_def email_succeeded_def split: email_result.splits)
  obtain d2 where d2: "unguarded_write (booking_call env SetTicketSent) ?w d1 = Some d2"
    using assms(2) by (cases "booking_call env SetTicketSent") (auto simp: unguarded_write_def)
  have P: "POST_bookings env b d = (BookingOk ?bid (generated_reference env) ?ok ?err, d2)"
    using assms(1) er d2 by (simp add: POST_bookings_def send_ticket_def)
  have cases: "d2 = d1 \<or> d2 = ?w d1" using unguarded_write_cases[OF d2] .
  have seats: "tbl_seats d2 = tbl_seats d1" using cases by (auto simp: update_booking_def)
  have sold: "booking_call env SellSeats = Resolved \<longrightarrow>
               (\<forall>s \<in> set (tbl_seats d2).
                  seat_id s \<in> set (the (seatIds b)) \<longrightarrow> seat_status s = Some ''sold'')"
    using seats until_email_Inr(3)[OF assms(1)] sell_seats_sold by simp
  have cores: "map core (tbl_bookings d2) = map core (tbl_bookings d1)"
    using cases by (auto simp: update_booking_def core_def)
  have row: "\<not> ?ok \<longrightarrow> (\<exists>bk \<in> set (tbl_bookings d2).
                  booking_id bk = ?bid \<and> booking_status bk = ''confirmed''
                  \<and> \<not> booking_ticket_sent bk)"
  proof
    assume nok: "\<not> ?ok"
    from until_email_Inr(1)[OF assms(1)] obtain us bk where us: "tbl_bookings d1 = us @ [bk]"
      and bk: "core bk = (?bid, the (showId b), the (seatIds b), the (totalAmount b), ''confirmed'')"
      by (auto simp: map_eq_append_conv)
    from until_email_Inr(2)[OF assms(1)] us have ts: "\<not> booking_ticket_sent bk" by simp
    from cases show "\<exists>bk \<in> set (tbl_bookings d2).
                  booking_id bk = ?bid \<and> booking_status bk = ''confirmed''
                  \<and> \<not> booking_ticket_sent bk"
    proof
      assume "d2 = d1"
      then show ?thesis using us bk ts by (auto simp: core_def)
    next
      assume "d2 = ?w d1"
      then have "bk\<lparr>booking_ticket_sent := False\<rparr> \<in> set (tbl_bookings d2)"
        using us bk nok by (simp add: update_booking_def core_def)
      moreover have "booking_id (bk\<lparr>booking_ticket_sent := False\<rparr>) = ?bid
          \<and> booking_status (bk\<lparr>booking_ticket_sent := False\<rparr>) = ''confirmed''
          \<and> \<not> booking_ticket_sent (bk\<lparr>booking_ticket_sent := False\<rparr>)"
        using bk by (simp add: core_def)
      ultimately show ?thesis by (rule bexI[rotated])
    qed
  qed
  show ?thesis using P seats sold cores row by blast
qed

text \<open>
  At the small theatre: the collaborator throws a connection error; the answer is a
  success that carries the error, seats a1 and a6 are sold, and the booking is confirmed
  with \<open>ticket_sent = false\<close>.
\<close>

theorem booking_stands_when_email_fails_witness:
  "fst (POST_bookings ex_email_down_env (ex_body [''a1'', ''a6''] 700) ex_db) =
     BookingOk ''bk-1'' ''TK-20260301-X4Q9'' False (Some ''connect ETIMEDOUT'')
   \<and> map (\<lambda>s. (seat_id s, seat_status s))
        (tbl_seats (snd (POST_bookings ex_email_down_env (ex_body [''a1'', ''a6''] 700) ex_db))) =
       [(''a1'', Some ''sold''), (''a2'', Some ''sold''), (''a3'', Some ''reserved''),
        (''a4'', Some ''reserved''), (''a5'', None), (''a6'', Some ''sold''),
        (''b1'', Some ''available'')]
   \<and> map core (tbl_bookings (snd (POST_bookings ex_email_down_env (ex_body [''a1'', ''a6''] 700) ex_db))) =
       [(''bk-1'', ''hamlet'', [''a1'', ''a6''], 700, ''confirmed'')]
   \<and> map booking_ticket_sent
        (tbl_bookings (snd (POST_bookings ex_email_down_env (ex_body [''a1'', ''a6''] 700) ex_db))) =
       [False]"
proof -
  let ?b = "ex_body [''a1'', ''a6''] 700"
  have calls: "booking_call ex_email_down_env c = Resolved" for c
    by (simp add: ex_email_down_env_def ex_booking_env_def)
  have "\<exists>d1. until_email ex_email_down_env ?b ex_db = Inr d1"
    by (simp add: booking_defs ex_booking_defs ex_email_down_env_def)
  then obtain d1 where d1: "until_email ex_email_down_env ?b ex_db = Inr d1" ..
  have nt: "booking_call ex_email_down_env SetTicketSent \<noteq> Threw" by (simp add: calls)
  from booking_stands_when_email_fails[OF d1 nt] obtain d2 where
    P: "POST_bookings ex_email_down_env ?b ex_db =
          (BookingOk (inserted_id ex_email_down_env) (generated_reference ex_email_down_env)
             (email_succeeded (email ex_email_down_env))
             (case email ex_email_down_env of
                EmailReturned ok e \<Rightarrow> e
              | EmailThrew m \<Rightarrow>
                  Some (case m of Some x \<Rightarrow> x | None \<Rightarrow> ''Ukjent feil i e-postsending'')),
           d2)"
    and cores: "map core (tbl_bookings d2) = map core (tbl_bookings d1)"
    by blast
  have 1: "fst (POST_bookings ex_email_down_env ?b ex_db) =
     BookingOk ''bk-1'' ''TK-20260301-X4Q9'' False (Some ''connect ETIMEDOUT'')"
    unfolding P by (simp add: ex_email_down_env_def ex_booking_env_def email_succeeded_def)
  have 2: "map (\<lambda>s. (seat_id s, seat_status s))
        (tbl_seats (snd (POST_bookings ex_email_down_env ?b ex_db))) =
       [(''a1'', Some ''sold''), (''a2'', Some ''sold''), (''a3'', Some ''reserved''),
        (''a4'', Some ''reserved''), (''a5'', None), (''a6'', Some ''sold''),
        (''b1'', Some ''available'')]"
    by (simp add: booking_defs ex_booking_defs ex_email_down_env_def)
  have 3: "map core (tbl_bookings (snd (POST_bookings ex_email_down_env ?b ex_db))) =
       [(''bk-1'', ''hamlet'', [''a1'', ''a6''], 700, ''confirmed'')]"
    unfolding P using cores until_email_Inr(1)[OF d1]
    by (simp add: ex_db_def ex_body_def ex_email_down_env_def ex_booking_env_def)
  have 4: "map booking_ticket_sent
        (tbl_bookings (snd (POST_bookings ex_email_down_env ?b ex_db))) = [False]"
    by (simp add: booking_defs ex_booking_defs ex_email_down_env_def)
  from 1 2 3 4 show ?thesis by simp
qed

section \<open>A seat id named twice\<close>

text \<open>
  Claim C10. Let the \<open>seatIds\<close> of a request name a seat id more than once, and let seat
  ids be unique in the seats table, so that the store returns one row for each distinct
  id. Then the reserve handler and the booking handler both answer with an error and
  leave the store as it was. When the request gets as far as the fetch of the seats (for
  the reserve handler: \<open>showId\<close> given, service role key set, the fetch resolves; for the
  booking handler: valid body, a session user, the show found, the fetch resolves), the
  answer is the status 400 with the message that some of the seats do not exist, because
  the number of fetched rows is compared with the length of \<open>seatIds\<close>.
\<close>

theorem duplicate_seat_ids_rejected:
  assumes "seatIds b = Some ids" "\<not> distinct ids" "distinct (map seat_id (tbl_seats d))"
  shows "(\<exists>st m u. fst (POST_reserve renv b d) = ReserveError st m u)
         \<and> snd (POST_reserve renv b d) = d
         \<and> (truthy (showId b) \<and> service_role_key renv \<and> store_call renv CheckSeats = Resolved
            \<longrightarrow> fst (POST_reserve renv b d) = ReserveError 400 SomeSeatsDoNotExist None)
         \<and> is_rejection (fst (POST_bookings benv b d))
         \<and> snd (POST_bookings benv b d) = d
         \<and> (valid_booking_body b \<and> booking_call benv GetUser \<noteq> Threw
              \<and> truthy (session_user benv) \<and> booking_call benv SelectShow = Resolved
              \<and> single (filter (\<lambda>s. show_id s = the (showId b)) (tbl_shows d)) \<noteq> None
              \<and> booking_call benv SelectSeats = Resolved
            \<longrightarrow> fst (POST_bookings benv b d) = BookingError 400 SomeSeatsDoNotExist)"
proof -
  have ne: "ids \<noteq> []" using assms(2) by auto
  have r: "length (select_seats_of_show ids sid (tbl_seats d)) \<noteq> length ids" for sid
    using duplicate_ids_fetch_short[OF assms(3,2), of "\<lambda>s. seat_show_id s = sid"]
    by (simp add: select_seats_of_show_def)
  have c: "length (select_seats ids (tbl_seats d)) \<noteq> length ids"
    using duplicate_ids_fetch_short[OF assms(3,2), of "\<lambda>s. True"]
    by (simp add: select_seats_def)
  have R: "(\<exists>st m u. fst (POST_reserve renv b d) = ReserveError st m u)
         \<and> snd (POST_reserve renv b d) = d
         \<and> (truthy (showId b) \<and> service_role_key renv \<and> store_call renv CheckSeats = Resolved
            \<longrightarrow> fst (POST_reserve renv b d) = ReserveError 400 SomeSeatsDoNotExist None)"
    using assms(1) ne r
    by (auto simp: POST_reserve_def Let_def split: call_result.splits)
  have F: "\<exists>r. fetch_requested benv b d = Inl r"
    using assms(1) c
    by (auto simp: fetch_requested_def Let_def split: call_result.splits option.splits)
  then obtain r where fr: "fetch_requested benv b d = Inl r" ..
  have P: "POST_bookings benv b d = (r, d)"
    using fr by (simp add: POST_bookings_def until_email_def booking_checks_def)
  have rej: "is_rejection r"
    using fr by (intro booking_checks_Inl[of benv b d]) (simp add: booking_checks_def)
  have msg: "valid_booking_body b \<and> booking_call benv GetUser \<noteq> Threw
              \<and> truthy (session_user benv) \<and> booking_call benv SelectShow = Resolved
              \<and> single (filter (\<lambda>s. show_id s = the (showId b)) (tbl_shows d)) \<noteq> None
              \<and> booking_call benv SelectSeats = Resolved
            \<longrightarrow> r = BookingError 400 SomeSeatsDoNotExist"
    using fr assms(1) c
    by (auto simp: fetch_requested_def Let_def split: call_result.splits option.splits)
  show ?thesis using R P rej msg by simp
qed

text \<open>
  At the small theatre: seat a1 is named twice; both handlers answer 400 and change
  nothing.
\<close>

theorem duplicate_seat_ids_rejected_witness:
  "POST_reserve ex_reserve_env (ex_body [''a1'', ''a1''] 700) ex_db =
     (ReserveError 400 SomeSeatsDoNotExist None, ex_db)
   \<and> POST_bookings ex_booking_env (ex_body [''a1'', ''a1''] 700) ex_db =
     (BookingError 400 SomeSeatsDoNotExist, ex_db)"
proof -
  let ?b = "ex_body [''a1'', ''a1''] 700"
  have dup: "\<not> distinct [''a1'', ''a1'']" by simp
  have reach: "valid_booking_body ?b \<and> booking_call ex_booking_env GetUser \<noteq> Threw
              \<and> truthy (session_user ex_booking_env)
              \<and> booking_call ex_booking_env SelectShow = Resolved
              \<and> single (filter (\<lambda>s. show_id s = the (showId ?b)) (tbl_shows ex_db)) \<noteq> None
              \<and> booking_call ex_booking_env SelectSeats = Resolved"
    by (simp add: valid_booking_body_def truthy_def single_def ex_booking_defs)
  have reach_r: "truthy (showId ?b) \<and> service_role_key ex_reserve_env
                 \<and> store_call ex_reserve_env CheckSeats = Resolved"
    by (simp add: truthy_def ex_body_fields ex_reserve_env_calls)
  from duplicate_seat_ids_rejected
         [where b = ?b and renv = ex_reserve_env and benv = ex_booking_env,
          OF ex_body_fields(1) dup ex_distinct_ids]
    reach reach_r
  have "fst (POST_reserve ex_reserve_env ?b ex_db) = ReserveError 400 SomeSeatsDoNotExist None"
    "snd (POST_reserve ex_reserve_env ?b ex_db) = ex_db"
    "fst (POST_bookings ex_booking_env ?b ex_db) = BookingError 400 SomeSeatsDoNotExist"
    "snd (POST_bookings ex_booking_env ?b ex_db) = ex_db"
    by blast+
  then show ?thesis by (simp add: prod_eq_iff)
qed

end
